theory Spec2Isabelle
  imports Main "HOL-Library.Char_ord" "HOL-Library.List_Lexorder" "HOL-Library.AList"
begin

section \<open>JSON values and their canonical serialisation\<close>

text \<open>
  What \<^verbatim>\<open>json.loads\<close> returns: \<^verbatim>\<open>None\<close>, a bool, an int, a float, a str, a list or a
  dict with str keys. A dict is an association list in insertion order. A float is kept
  as the text \<^verbatim>\<open>float.__repr__\<close> gives for it. A str is a list of code points below 256.
\<close>

datatype json =
    JNull
  | JBool bool
  | JInt int
  | JFloat string
  | JString string
  | JArray "json list"
  | JObject "(string \<times> json) list"

text \<open>Decimal digits of a Python int, as \<^verbatim>\<open>int.__repr__\<close> prints them.\<close>

definition digit_char :: "nat \<Rightarrow> char" where
  "digit_char d = char_of (of_char CHR ''0'' + d)"

function show_nat :: "nat \<Rightarrow> string" where
  "show_nat n = (if n < 10 then [digit_char n] else show_nat (n div 10) @ [digit_char (n mod 10)])"
  by pat_completeness auto
termination
  by (relation "measure id") auto

definition show_int :: "int \<Rightarrow> string" where
  "show_int i = (if i < 0 then CHR ''-'' # show_nat (nat (- i)) else show_nat (nat i))"

text \<open>
  \<^verbatim>\<open>json.encoder.py_encode_basestring_ascii\<close>: the characters \<^verbatim>\<open>\\<close> and \<^verbatim>\<open>"\<close> and
  everything outside \<^verbatim>\<open>' '..'~'\<close> are escaped; backspace, form feed, newline, carriage
  return and tab have short escapes, every other one is \<^verbatim>\<open>\u00xx\<close> in lower-case hex.
\<close>

definition hex_digit :: "nat \<Rightarrow> char" where
  "hex_digit d = (if d < 10 then digit_char d else char_of (of_char CHR ''a'' + (d - 10)))"

definition escape_char :: "char \<Rightarrow> string" where
  "escape_char c =
     (let n = (of_char c :: nat) in
      if n = 0x22 then [CHR 0x5C, CHR 0x22]
      else if n = 0x5C then [CHR 0x5C, CHR 0x5C]
      else if n = 0x08 then [CHR 0x5C, CHR ''b'']
      else if n = 0x0C then [CHR 0x5C, CHR ''f'']
      else if n = 0x0A then [CHR 0x5C, CHR ''n'']
      else if n = 0x0D then [CHR 0x5C, CHR ''r'']
      else if n = 0x09 then [CHR 0x5C, CHR ''t'']
      else if 0x20 \<le> n \<and> n \<le> 0x7E then [c]
      else [CHR 0x5C, CHR ''u'', CHR ''0'', CHR ''0'', hex_digit (n div 16), hex_digit (n mod 16)])"

definition encode_str :: "string \<Rightarrow> string" where
  "encode_str s = [CHR 0x22] @ concat (map escape_char s) @ [CHR 0x22]"

text \<open>\<^verbatim>\<open>', '.join(parts)\<close>\<close>

fun join_comma :: "string list \<Rightarrow> string" where
  "join_comma [] = []"
| "join_comma [p] = p"
| "join_comma (p # q # ps) = p @ '', '' @ join_comma (q # ps)"

text \<open>
  \<^verbatim>\<open>json.dumps(content, sort_keys=True)\<close> with the default separators: the items of every
  dict, at every depth, are written in the order of their keys (\<^verbatim>\<open>sorted(dct.items())\<close>;
  Python compares str by code point, shorter prefix first).
\<close>

fun json_dumps_sorted :: "json \<Rightarrow> string" where
  "json_dumps_sorted JNull = ''null''"
| "json_dumps_sorted (JBool b) = (if b then ''true'' else ''false'')"
| "json_dumps_sorted (JInt i) = show_int i"
| "json_dumps_sorted (JFloat r) = r"
| "json_dumps_sorted (JString s) = encode_str s"
| "json_dumps_sorted (JArray xs) = ''['' @ join_comma (map json_dumps_sorted xs) @ '']''"
| "json_dumps_sorted (JObject kvs) =
     ''{'' @ join_comma (map (\<lambda>kv. encode_str (fst kv) @ '': '' @ json_dumps_sorted (snd kv))
                             (sort_key fst kvs)) @ ''}''"

section \<open>The connection pool manager (\<^verbatim>\<open>servers/pg/database.py\<close>)\<close>

text \<open>
  Exceptions are values. \<open>LibraryError\<close> is an exception raised inside a library call
  (asyncpg, the file system, \<^verbatim>\<open>json.loads\<close>), with the text \<^verbatim>\<open>str(e)\<close> gives.
  The \<open>TypeError\<close> texts are CPython's.
\<close>

datatype error =
    ValueError string
  | TypeError string
  | KeyError string
  | LibraryError string

text \<open>
  A pool object as \<^verbatim>\<open>asyncpg.create_pool\<close> builds it: \<open>pool_id\<close> is the identity of the
  object (the number of pools constructed before it), the other fields are the arguments
  of the call.
\<close>

record pool =
  pool_id :: nat
  dsn :: json
  min_size :: nat
  max_size :: nat
  command_timeout :: nat
  server_settings :: "(string \<times> string) list"

text \<open>
  The fields of \<^verbatim>\<open>Database\<close> that its methods read and write. \<^verbatim>\<open>_connection_map\<close> holds
  whatever \<^verbatim>\<open>json.loads\<close> returned at the last applied reload, so it is a JSON value.
\<close>

record database =
  pools :: "(string \<times> pool) list"
  connection_map :: json
  last_config_hash :: "string option"

definition Database_init :: database where
  "Database_init = \<lparr>pools = [], connection_map = JObject [], last_config_hash = None\<rparr>"

text \<open>
  What lies outside the process: how many pools have been constructed, which pool
  objects have been closed, and the statements sent over pooled connections, each with
  the pool it went through and its parameters.
\<close>

datatype sql =
    SetTransactionReadOnly
  | QueryText json
  | ListSchemas
  | ListTables
  | ListTableMetadata
  | ListColumnsMetadata
  | CountTableRows json json
  | SampleTableRows json json

record world =
  next_pool_id :: nat
  closed_pools :: "nat list"
  statements :: "(nat \<times> sql \<times> json list) list"

definition world_init :: world where
  "world_init = \<lparr>next_pool_id = 0, closed_pools = [], statements = []\<rparr>"

text \<open>
  The answers of the database servers, which the code cannot know: whether connecting
  with a credential raises, whether \<^verbatim>\<open>conn.execute\<close> raises, and what \<^verbatim>\<open>conn.fetch\<close>
  followed by the serialisation of the rows gives (\<open>Inl\<close> the text of the exception).
\<close>

record backend =
  connect_error :: "json \<Rightarrow> string option"
  execute_error :: "nat \<Rightarrow> sql \<Rightarrow> string option"
  fetch_result :: "nat \<Rightarrow> sql \<Rightarrow> json list \<Rightarrow> string + json list"

subsection \<open>Reloading the configuration\<close>

text \<open>
  \<^verbatim>\<open>_hash_config\<close>: \<^verbatim>\<open>sha1(json.dumps(content, sort_keys=True).encode()).hexdigest()\<close>.
  The digest function of \<^verbatim>\<open>hashlib\<close> is the parameter \<open>sha1\<close>; the serialisation is ASCII,
  so \<^verbatim>\<open>encode()\<close> changes nothing.
\<close>

definition hash_config :: "(string \<Rightarrow> string) \<Rightarrow> json \<Rightarrow> string" where
  "hash_config sha1 content = sha1 (json_dumps_sorted content)"

text \<open>
  One look at the Config Source: the path does not exist, or opening, reading or
  \<^verbatim>\<open>json.loads\<close> raises, or a JSON value comes back.
\<close>

datatype config_read =
    NotFound string
  | ReadRaises string
  | Parsed json

datatype log_entry = LogInfo string | LogWarning string | LogError string

definition str_of_error :: "error \<Rightarrow> string" where
  "str_of_error e = (case e of
       ValueError m \<Rightarrow> m
     | TypeError m \<Rightarrow> m
     | KeyError k \<Rightarrow> [CHR 0x27] @ k @ [CHR 0x27]
     | LibraryError m \<Rightarrow> m)"

text \<open>\<^verbatim>\<open>_reload_config_if_changed\<close>: the result, the new state and what was logged.\<close>

definition reload_config_if_changed ::
  "(string \<Rightarrow> string) \<Rightarrow> config_read \<Rightarrow> database \<Rightarrow> (error + unit) \<times> database \<times> log_entry list" where
  "reload_config_if_changed sha1 src db =
     (case src of
        NotFound path \<Rightarrow> (Inr (), db, [LogWarning (''Config path '' @ path @ '' not found.'')])
      | ReadRaises msg \<Rightarrow> (Inl (LibraryError msg), db, [])
      | Parsed content \<Rightarrow>
          (let current_hash = hash_config sha1 content in
           if Some current_hash = last_config_hash db then (Inr (), db, [])
           else (Inr (),
                 db\<lparr>last_config_hash := Some current_hash, connection_map := content\<rparr>,
                 [LogInfo ''Detected config map change, updating connections''])))"

text \<open>
  One turn of \<^verbatim>\<open>_refresh_loop\<close>: the reload, with every exception caught and logged. The
  loop itself never returns; \<open>refresh_loop\<close> runs it over the reads of finitely many
  intervals.
\<close>

definition refresh_iteration ::
  "(string \<Rightarrow> string) \<Rightarrow> config_read \<Rightarrow> database \<Rightarrow> database \<times> log_entry list" where
  "refresh_iteration sha1 src db =
     (case reload_config_if_changed sha1 src db of
        (Inl e, db', logs) \<Rightarrow>
          (db', logs @ [LogError (''Error during config refresh: '' @ str_of_error e)])
      | (Inr u, db', logs) \<Rightarrow> (db', logs))"

fun refresh_loop ::
  "(string \<Rightarrow> string) \<Rightarrow> config_read list \<Rightarrow> database \<Rightarrow> database \<times> log_entry list" where
  "refresh_loop sha1 [] db = (db, [])"
| "refresh_loop sha1 (src # srcs) db =
     (case refresh_iteration sha1 src db of
        (db', logs) \<Rightarrow> (case refresh_loop sha1 srcs db' of (db'', logs') \<Rightarrow> (db'', logs @ logs')))"

subsection \<open>Looking an identifier up\<close>

text \<open>\<^verbatim>\<open>needle in hay\<close> on two str: \<open>needle\<close> occurs in \<open>hay\<close> as a contiguous piece.\<close>

fun str_contains :: "string \<Rightarrow> string \<Rightarrow> bool" where
  "str_contains [] needle = (needle = [])"
| "str_contains (c # cs) needle =
     (take (length needle) (c # cs) = needle \<or> str_contains cs needle)"

text \<open>A type name as CPython's messages show it, between apostrophes.\<close>

definition quoted :: "string \<Rightarrow> string" where
  "quoted n = [CHR 0x27] @ n @ [CHR 0x27]"

definition type_name :: "json \<Rightarrow> string" where
  "type_name v =
     (case v of
        JNull \<Rightarrow> ''NoneType''
      | JBool b \<Rightarrow> ''bool''
      | JInt i \<Rightarrow> ''int''
      | JFloat r \<Rightarrow> ''float''
      | JString s \<Rightarrow> ''str''
      | JArray xs \<Rightarrow> ''list''
      | JObject kvs \<Rightarrow> ''dict'')"

text \<open>
  \<^verbatim>\<open>conn_id in self._connection_map\<close> and \<^verbatim>\<open>self._connection_map[conn_id]\<close>, for a str
  \<^verbatim>\<open>conn_id\<close> and each kind of value the map can be: a dict is asked for a key, a list for
  an equal element, a str for a substring, and the others raise.
\<close>

definition py_contains :: "json \<Rightarrow> string \<Rightarrow> error + bool" where
  "py_contains container k =
     (case container of
        JObject kvs \<Rightarrow> Inr (k \<in> set (map fst kvs))
      | JArray xs \<Rightarrow> Inr (JString k \<in> set xs)
      | JString s \<Rightarrow> Inr (str_contains s k)
      | _ \<Rightarrow> Inl (TypeError (''argument of type '' @ quoted (type_name container)
                              @ '' is not iterable'')))"

definition py_getitem :: "json \<Rightarrow> string \<Rightarrow> error + json" where
  "py_getitem container k =
     (case container of
        JObject kvs \<Rightarrow> (case map_of kvs k of Some v \<Rightarrow> Inr v | None \<Rightarrow> Inl (KeyError k))
      | JArray xs \<Rightarrow> Inl (TypeError ''list indices must be integers or slices, not str'')
      | JString s \<Rightarrow> Inl (TypeError (''string indices must be integers, not '' @ quoted ''str''))
      | _ \<Rightarrow> Inl (TypeError (quoted (type_name container) @ '' object is not subscriptable'')))"

text \<open>\<^verbatim>\<open>Database.get_connection_string\<close> of \<^verbatim>\<open>guMCP/src/servers/pg/database.py\<close>.\<close>

definition get_connection_string :: "database \<Rightarrow> string \<Rightarrow> error + json" where
  "get_connection_string db conn_id =
     (case py_contains (connection_map db) conn_id of
        Inl e \<Rightarrow> Inl e
      | Inr False \<Rightarrow> Inl (ValueError (''Unknown connection ID '' @ conn_id))
      | Inr True \<Rightarrow> py_getitem (connection_map db) conn_id)"

text \<open>
  \<^verbatim>\<open>Database.get_connection_string\<close> of \<^verbatim>\<open>server/database.py\<close>: the same, with a colon
  in the message.
\<close>

definition server_get_connection_string :: "database \<Rightarrow> string \<Rightarrow> error + json" where
  "server_get_connection_string db conn_id =
     (case py_contains (connection_map db) conn_id of
        Inl e \<Rightarrow> Inl e
      | Inr False \<Rightarrow> Inl (ValueError (''Unknown connection ID: '' @ conn_id))
      | Inr True \<Rightarrow> py_getitem (connection_map db) conn_id)"

subsection \<open>Opening, handing out and closing pools\<close>

text \<open>\<^verbatim>\<open>not conn_id\<close> for an \<^verbatim>\<open>Optional[str]\<close>: \<^verbatim>\<open>None\<close> and the empty str are falsy.\<close>

definition falsy :: "string option \<Rightarrow> bool" where
  "falsy conn_id = (case conn_id of None \<Rightarrow> True | Some s \<Rightarrow> s = [])"

text \<open>\<^verbatim>\<open>conn_id in self._pools\<close>\<close>

definition in_pools :: "database \<Rightarrow> string option \<Rightarrow> bool" where
  "in_pools db conn_id = (case conn_id of None \<Rightarrow> False | Some s \<Rightarrow> s \<in> set (map fst (pools db)))"

text \<open>
  \<^verbatim>\<open>asyncpg.create_pool(conn_str, min_size=.., max_size=.., command_timeout=..,
  server_settings=..)\<close>, awaited: it raises when the server cannot be reached with the
  credential, and otherwise returns a pool object that did not exist before.
\<close>

definition create_pool ::
  "backend \<Rightarrow> world \<Rightarrow> json \<Rightarrow> nat \<Rightarrow> nat \<Rightarrow> nat \<Rightarrow> (string \<times> string) list \<Rightarrow> (error + pool) \<times> world" where
  "create_pool be w conn_str mn mx tmo settings =
     (case connect_error be conn_str of
        Some msg \<Rightarrow> (Inl (LibraryError msg), w)
      | None \<Rightarrow>
          (Inr \<lparr>pool_id = next_pool_id w, dsn = conn_str, min_size = mn, max_size = mx,
                command_timeout = tmo, server_settings = settings\<rparr>,
           w\<lparr>next_pool_id := Suc (next_pool_id w)\<rparr>))"

text \<open>
  \<^verbatim>\<open>Database.initialize\<close> suspends once, at \<^verbatim>\<open>await asyncpg.create_pool(...)\<close>.
  \<open>initialize_begin\<close> is the code up to that point: it raises, or finds the pool present
  (\<open>Inr None\<close>), or has the credential to connect with. \<open>initialize_finish\<close> is the code
  from the completion of \<^verbatim>\<open>create_pool\<close> on: the new pool is stored under \<^verbatim>\<open>conn_id\<close>.
\<close>

definition initialize_begin :: "database \<Rightarrow> string option \<Rightarrow> error + json option" where
  "initialize_begin db conn_id =
     (if falsy conn_id then Inl (ValueError ''Connection ID is required'')
      else if \<not> in_pools db conn_id then
        (case get_connection_string db (the conn_id) of
           Inl e \<Rightarrow> Inl e
         | Inr conn_str \<Rightarrow> Inr (Some conn_str))
      else Inr None)"

definition initialize_finish ::
  "backend \<Rightarrow> database \<Rightarrow> world \<Rightarrow> string \<Rightarrow> json \<Rightarrow> (error + unit) \<times> database \<times> world" where
  "initialize_finish be db w conn_id conn_str =
     (case create_pool be w conn_str 2 4 60 [(''default_transaction_read_only'', ''true'')] of
        (Inl e, w') \<Rightarrow> (Inl e, db, w')
      | (Inr p, w') \<Rightarrow> (Inr (), db\<lparr>pools := AList.update conn_id p (pools db)\<rparr>, w'))"

definition initialize ::
  "backend \<Rightarrow> database \<Rightarrow> world \<Rightarrow> string option \<Rightarrow> (error + unit) \<times> database \<times> world" where
  "initialize be db w conn_id =
     (case initialize_begin db conn_id of
        Inl e \<Rightarrow> (Inl e, db, w)
      | Inr None \<Rightarrow> (Inr (), db, w)
      | Inr (Some conn_str) \<Rightarrow> initialize_finish be db w (the conn_id) conn_str)"

text \<open>
  A connection is known by the pool it was taken from.
  \<open>pool_acquire\<close> is \<^verbatim>\<open>self._pools[conn_id].acquire()\<close>: the dict lookup raises
  \<^verbatim>\<open>KeyError\<close> for a missing key; taking a connection from an open pool is assumed to
  succeed.
\<close>

datatype connection = Connection pool

definition pool_acquire :: "database \<Rightarrow> string option \<Rightarrow> error + connection" where
  "pool_acquire db conn_id =
     (case conn_id of
        None \<Rightarrow> Inl (KeyError ''None'')
      | Some s \<Rightarrow> (case map_of (pools db) s of
                     None \<Rightarrow> Inl (KeyError s)
                   | Some p \<Rightarrow> Inr (Connection p)))"

text \<open>\<^verbatim>\<open>Database.get_connection\<close>, up to the \<^verbatim>\<open>yield conn\<close>.\<close>

definition get_connection ::
  "backend \<Rightarrow> database \<Rightarrow> world \<Rightarrow> string option \<Rightarrow> (error + connection) \<times> database \<times> world" where
  "get_connection be db w conn_id =
     (if \<not> in_pools db conn_id then
        (case initialize be db w conn_id of
           (Inl e, db', w') \<Rightarrow> (Inl e, db', w')
         | (Inr u, db', w') \<Rightarrow> (pool_acquire db' conn_id, db', w'))
      else (pool_acquire db conn_id, db, w))"

text \<open>
  \<^verbatim>\<open>await self._pools[conn_id].close(); del self._pools[conn_id]\<close>: the pool object is
  closed, then its entry is deleted.
\<close>

definition close_entry :: "database \<Rightarrow> world \<Rightarrow> string \<Rightarrow> (error + unit) \<times> database \<times> world" where
  "close_entry db w conn_id =
     (case map_of (pools db) conn_id of
        None \<Rightarrow> (Inl (KeyError conn_id), db, w)
      | Some p \<Rightarrow>
          (Inr (), db\<lparr>pools := AList.delete conn_id (pools db)\<rparr>,
           w\<lparr>closed_pools := closed_pools w @ [pool_id p]\<rparr>))"

text \<open>The loop of \<^verbatim>\<open>close\<close> over \<^verbatim>\<open>list(self._pools.keys())\<close>.\<close>

fun close_each :: "string list \<Rightarrow> database \<Rightarrow> world \<Rightarrow> (error + unit) \<times> database \<times> world" where
  "close_each [] db w = (Inr (), db, w)"
| "close_each (k # ks) db w =
     (case close_entry db w k of
        (Inl e, db', w') \<Rightarrow> (Inl e, db', w')
      | (Inr u, db', w') \<Rightarrow> close_each ks db' w')"

text \<open>\<^verbatim>\<open>Database.close\<close>\<close>

definition close :: "database \<Rightarrow> world \<Rightarrow> string option \<Rightarrow> (error + unit) \<times> database \<times> world" where
  "close db w conn_id =
     (if \<not> falsy conn_id then
        (if in_pools db conn_id then close_entry db w (the conn_id) else (Inr (), db, w))
      else close_each (map fst (pools db)) db w)"

section \<open>Tokens (\<^verbatim>\<open>auth/jwt_utils.py\<close>)\<close>

text \<open>
  The claims of a token payload that the code writes and reads. The two timestamps are
  whole seconds since the epoch, as \<^verbatim>\<open>jwt.encode\<close> stores a \<^verbatim>\<open>datetime\<close>.
\<close>

record payload =
  user_id :: "string option"
  iat :: "int option"
  exp :: "int option"

text \<open>
  A token string is either not a well-formed compact serialisation (\<open>Malformed\<close>), or
  carries the algorithm named in its header, a payload and a signature.
\<close>

datatype token = Malformed string | Compact string payload string

text \<open>
  The HMAC of the PyJWT library: \<open>hs256\<close> is the signature of a payload under a key,
  \<open>key_error\<close> the text of the \<^verbatim>\<open>InvalidKeyError\<close> for a key the library refuses as an
  HMAC secret.
\<close>

record jwt_lib =
  hs256 :: "string \<Rightarrow> payload \<Rightarrow> string"
  key_error :: "string \<Rightarrow> string option"

text \<open>
  The exceptions of \<^verbatim>\<open>jwt.decode\<close>. All but \<open>InvalidKeyError\<close> are subclasses of
  \<^verbatim>\<open>jwt.InvalidTokenError\<close>.
\<close>

datatype jwt_error =
    DecodeError
  | InvalidAlgorithmError
  | InvalidSignatureError
  | ImmatureSignatureError
  | ExpiredSignatureError
  | InvalidKeyError string

definition is_InvalidTokenError :: "jwt_error \<Rightarrow> bool" where
  "is_InvalidTokenError e = (case e of InvalidKeyError m \<Rightarrow> False | _ \<Rightarrow> True)"

text \<open>\<^verbatim>\<open>jwt.encode(payload, key, algorithm="HS256")\<close>\<close>

definition jwt_encode :: "jwt_lib \<Rightarrow> payload \<Rightarrow> string \<Rightarrow> jwt_error + token" where
  "jwt_encode lib p key =
     (case key_error lib key of
        Some m \<Rightarrow> Inl (InvalidKeyError m)
      | None \<Rightarrow> Inr (Compact ''HS256'' p (hs256 lib key p)))"

text \<open>
  \<^verbatim>\<open>jwt.decode(token, key, algorithms=["HS256"])\<close> at the clock reading \<open>now\<close>, in
  microseconds since the epoch: the structure, the algorithm, the signature, then
  \<^verbatim>\<open>iat\<close> (not in the future) and \<^verbatim>\<open>exp\<close> (\<^verbatim>\<open>exp <= now\<close> is expired), with no leeway.
\<close>

definition jwt_decode :: "jwt_lib \<Rightarrow> token \<Rightarrow> string \<Rightarrow> int \<Rightarrow> jwt_error + payload" where
  "jwt_decode lib tok key now =
     (case tok of
        Malformed s \<Rightarrow> Inl DecodeError
      | Compact alg p sg \<Rightarrow>
          if alg \<noteq> ''HS256'' then Inl InvalidAlgorithmError
          else (case key_error lib key of
                  Some m \<Rightarrow> Inl (InvalidKeyError m)
                | None \<Rightarrow>
                    if sg \<noteq> hs256 lib key p then Inl InvalidSignatureError
                    else if (case iat p of Some i \<Rightarrow> now < i * 1000000 | None \<Rightarrow> False)
                      then Inl ImmatureSignatureError
                    else if (case exp p of Some e \<Rightarrow> e * 1000000 \<le> now | None \<Rightarrow> False)
                      then Inl ExpiredSignatureError
                    else Inr p))"

record jwtutils =
  jwt_secret :: string

text \<open>
  \<^verbatim>\<open>JWTUtils.__init__\<close>:
  \<^verbatim>\<open>jwt_secret or environ.get("JWT_SECRET", "default-secret")\<close>.
\<close>

definition JWTUtils_init :: "string option \<Rightarrow> (string \<rightharpoonup> string) \<Rightarrow> jwtutils" where
  "JWTUtils_init secret_arg environ =
     \<lparr>jwt_secret =
        (if \<not> falsy secret_arg then the secret_arg
         else (case environ ''JWT_SECRET'' of Some v \<Rightarrow> v | None \<Rightarrow> ''default-secret''))\<rparr>"

text \<open>
  \<^verbatim>\<open>generate_jwt_token\<close> at the clock reading \<open>now\<close> (microseconds): \<^verbatim>\<open>iat\<close> is the
  current time and \<^verbatim>\<open>exp\<close> is 24 hours later, both cut to whole seconds by the encoder.
\<close>

definition generate_jwt_token :: "jwt_lib \<Rightarrow> jwtutils \<Rightarrow> int \<Rightarrow> string \<Rightarrow> error + token" where
  "generate_jwt_token lib u now uid =
     (let p = \<lparr>user_id = Some uid,
                iat = Some (now div 1000000),
                exp = Some ((now + 24 * 3600 * 1000000) div 1000000)\<rparr>
      in case jwt_encode lib p (jwt_secret u) of
           Inr tok \<Rightarrow> Inr tok
         | Inl e \<Rightarrow> Inl (ValueError (''Failed to generate JWT token: ''
                                      @ (case e of InvalidKeyError m \<Rightarrow> m | _ \<Rightarrow> []))))"

text \<open>
  \<^verbatim>\<open>verify_jwt_token\<close>: only \<^verbatim>\<open>jwt.InvalidTokenError\<close> is caught, so the \<^verbatim>\<open>ValueError\<close>
  for a payload without \<^verbatim>\<open>user_id\<close> and the library's \<^verbatim>\<open>InvalidKeyError\<close> leave the
  function as they are.
\<close>

definition verify_jwt_token :: "jwt_lib \<Rightarrow> jwtutils \<Rightarrow> int \<Rightarrow> token \<Rightarrow> error + payload" where
  "verify_jwt_token lib u now tok =
     (case jwt_decode lib tok (jwt_secret u) now of
        Inr p \<Rightarrow>
          if user_id p = None then Inl (ValueError ''Invalid JWT payload: user_id missing'')
          else Inr p
      | Inl e \<Rightarrow>
          if is_InvalidTokenError e then Inl (ValueError ''Invalid or expired JWT token'')
          else Inl (LibraryError (case e of InvalidKeyError m \<Rightarrow> m | _ \<Rightarrow> [])))"

subsection \<open>The middleware that guards every route (\<^verbatim>\<open>servers/remote.py\<close>)\<close>

text \<open>
  The \<^verbatim>\<open>Authorization\<close> header: absent or empty, present without the prefix
  \<^verbatim>\<open>"Bearer "\<close>, or the prefix followed by a token string.
\<close>

datatype authorization = NoHeader | OtherHeader string | Bearer token

record request =
  path :: string
  auth_header :: authorization

text \<open>
  What \<^verbatim>\<open>JWTMiddleware.dispatch\<close> does with a request: it hands it on
  (\<open>CallNext\<close>, with the \<^verbatim>\<open>user_id\<close> it stored in the request state, if any), answers
  with a JSON body and a status code, or lets an exception escape.
\<close>

datatype response =
    CallNext "string option"
  | JSONResponse "(string \<times> string) list" nat
  | Escapes error

definition dispatch :: "jwt_lib \<Rightarrow> jwtutils \<Rightarrow> int \<Rightarrow> request \<Rightarrow> response" where
  "dispatch lib u now req =
     (if path req \<in> set [''/metrics'', ''/'', ''/health_check'', ''/token''] then CallNext None
      else (case auth_header req of
              NoHeader \<Rightarrow> JSONResponse [(''error'', ''Missing or invalid Authorization header'')] 401
            | OtherHeader h \<Rightarrow>
                JSONResponse [(''error'', ''Missing or invalid Authorization header'')] 401
            | Bearer tok \<Rightarrow>
                (case verify_jwt_token lib u now tok of
                   Inr p \<Rightarrow> CallNext (user_id p)
                 | Inl (ValueError m) \<Rightarrow> JSONResponse [(''error'', m)] 401
                 | Inl e \<Rightarrow> Escapes e)))"

section \<open>The PostgreSQL tool server (\<^verbatim>\<open>servers/pg/main.py\<close>)\<close>

text \<open>
  The text of a \<^verbatim>\<open>TextContent\<close> result: the JSON object with \<^verbatim>\<open>success\<close> false and an
  \<^verbatim>\<open>error\<close>, with \<^verbatim>\<open>success\<close> true alone, with \<^verbatim>\<open>success\<close> true and the rows as
  \<^verbatim>\<open>data\<close>, or a plain sentence.
\<close>

datatype text_content =
    Failure string
  | Success
  | SuccessData "json list"
  | PlainText string

text \<open>What \<^verbatim>\<open>create_server(user_id, conn_id)\<close> binds to the server instance.\<close>

record server =
  server_user_id :: string
  server_conn_id :: "string option"

text \<open>
  \<^verbatim>\<open>handle_sse\<close> takes the identifier out of the session key: the piece after the last
  colon, or \<^verbatim>\<open>None\<close> when the key has no colon.
\<close>

definition parse_conn_id :: "string \<Rightarrow> string option" where
  "parse_conn_id session_key_encoded =
     (if CHR '':'' \<in> set session_key_encoded
      then Some (rev (takeWhile (\<lambda>c. c \<noteq> CHR '':'') (rev session_key_encoded)))
      else None)"

definition create_server :: "string \<Rightarrow> string option \<Rightarrow> server" where
  "create_server uid cid = \<lparr>server_user_id = uid, server_conn_id = cid\<rparr>"

text \<open>
  \<^verbatim>\<open>execute_query\<close>. \<^verbatim>\<open>global_db\<close> is a \<^verbatim>\<open>Database\<close> object and so always truthy. An
  exception of \<^verbatim>\<open>get_connection\<close> or of the \<^verbatim>\<open>SET TRANSACTION\<close> statement leaves the
  function; one of the query is turned into a failure result.
\<close>

definition sent :: "world \<Rightarrow> nat \<Rightarrow> sql \<Rightarrow> json list \<Rightarrow> world" where
  "sent w pid stmt params = w\<lparr>statements := statements w @ [(pid, stmt, params)]\<rparr>"

definition execute_query ::
  "backend \<Rightarrow> database \<Rightarrow> world \<Rightarrow> sql \<Rightarrow> string option \<Rightarrow> json list option
     \<Rightarrow> (error + text_content list) \<times> database \<times> world" where
  "execute_query be db w query conn_id params =
     (case get_connection be db w conn_id of
        (Inl e, db', w') \<Rightarrow> (Inl e, db', w')
      | (Inr (Connection p), db', w') \<Rightarrow>
          (let w1 = sent w' (pool_id p) SetTransactionReadOnly [] in
           case execute_error be (pool_id p) SetTransactionReadOnly of
             Some m \<Rightarrow> (Inl (LibraryError m), db', w1)
           | None \<Rightarrow>
               (let ps = (case params of None \<Rightarrow> [] | Some xs \<Rightarrow> xs);
                    w2 = sent w1 (pool_id p) query ps
                in case fetch_result be (pool_id p) query ps of
                     Inr rows \<Rightarrow> (Inr [SuccessData rows], db', w2)
                   | Inl m \<Rightarrow> (Inr [Failure m], db', w2))))"

text \<open>\<^verbatim>\<open>arguments.get(key, default)\<close> and \<^verbatim>\<open>arguments[key]\<close>\<close>

definition dict_get :: "(string \<times> json) list \<Rightarrow> string \<Rightarrow> json \<Rightarrow> json" where
  "dict_get d k dflt = (case map_of d k of Some v \<Rightarrow> v | None \<Rightarrow> dflt)"

definition dict_item :: "(string \<times> json) list \<Rightarrow> string \<Rightarrow> error + json" where
  "dict_item d k = (case map_of d k of Some v \<Rightarrow> Inr v | None \<Rightarrow> Inl (KeyError k))"

text \<open>
  The \<^verbatim>\<open>params\<close> of \<^verbatim>\<open>pg_query\<close>: absent or null is \<^verbatim>\<open>None\<close>, a list is taken as it
  is, any other value becomes a list of one.
\<close>

definition query_params :: "(string \<times> json) list \<Rightarrow> json list option" where
  "query_params d =
     (case dict_get d ''params'' JNull of
        JNull \<Rightarrow> None
      | JArray xs \<Rightarrow> Some xs
      | v \<Rightarrow> Some [v])"

text \<open>The \<^verbatim>\<open>pg_connect\<close> case, with its two nested \<^verbatim>\<open>try\<close> blocks.\<close>

definition pg_connect ::
  "backend \<Rightarrow> server \<Rightarrow> database \<Rightarrow> world \<Rightarrow> text_content list option \<times> database \<times> world" where
  "pg_connect be srv db w =
     (case py_contains (connection_map db) (the (server_conn_id srv)) of
        Inl e \<Rightarrow> (Some [Failure (str_of_error e)], db, w)
      | Inr False \<Rightarrow> (Some [Failure ''Unknown connection ID''], db, w)
      | Inr True \<Rightarrow>
          if \<not> in_pools db (server_conn_id srv) then
            (case initialize be db w (server_conn_id srv) of
               (Inr u, db', w') \<Rightarrow> (Some [Success], db', w')
             | (Inl e, db', w') \<Rightarrow>
                 (Some [Failure ''Failed to initialize pool for connection ID''], db', w'))
          else (None, db, w))"

text \<open>The \<^verbatim>\<open>pg_disconnect\<close> case.\<close>

definition pg_disconnect ::
  "server \<Rightarrow> database \<Rightarrow> world \<Rightarrow> text_content list option \<times> database \<times> world" where
  "pg_disconnect srv db w =
     (if \<not> in_pools db (server_conn_id srv)
      then (Some [Failure ''Unknown connection ID''], db, w)
      else (case close_entry db w (the (server_conn_id srv)) of
              (Inr u, db', w') \<Rightarrow> (Some [Success], db', w')
            | (Inl e, db', w') \<Rightarrow> (Some [Failure ''Error disconnecting connection''], db', w')))"

text \<open>
  The cases that run a query; an exception that leaves one of them is caught by the
  outer \<^verbatim>\<open>try\<close> of \<^verbatim>\<open>handle_call_tool\<close> and becomes a failure result.
\<close>

definition caught ::
  "(error + text_content list) \<times> database \<times> world
     \<Rightarrow> text_content list option \<times> database \<times> world" where
  "caught r =
     (case r of
        (Inr res, db', w') \<Rightarrow> (Some res, db', w')
      | (Inl e, db', w') \<Rightarrow> (Some [Failure (str_of_error e)], db', w'))"

definition with_table_name ::
  "(string \<times> json) list \<Rightarrow> database \<Rightarrow> world
     \<Rightarrow> (json \<Rightarrow> (error + text_content list) \<times> database \<times> world)
     \<Rightarrow> (error + text_content list) \<times> database \<times> world" where
  "with_table_name d db w k =
     (case dict_item d ''table_name'' of Inl e \<Rightarrow> (Inl e, db, w) | Inr t \<Rightarrow> k t)"

text \<open>\<^verbatim>\<open>handle_call_tool\<close>; \<open>None\<close> is the Python function ending without a \<^verbatim>\<open>return\<close>.\<close>

definition handle_call_tool ::
  "backend \<Rightarrow> server \<Rightarrow> database \<Rightarrow> world \<Rightarrow> string \<Rightarrow> (string \<times> json) list option
     \<Rightarrow> text_content list option \<times> database \<times> world" where
  "handle_call_tool be srv db w name arguments =
     (let d = (case arguments of None \<Rightarrow> [] | Some a \<Rightarrow> a);
          cid = server_conn_id srv;
          schema = dict_get d ''schema'' (JString ''public'')
      in
      if falsy cid
        then (Some [Failure ''conn_id is required for database operations''], db, w)
      else if name = ''pg_connect'' then pg_connect be srv db w
      else if name = ''pg_disconnect'' then pg_disconnect srv db w
      else if name = ''pg_query'' then
        (if ''query'' \<notin> set (map fst d)
         then (Some [Failure ''SQL(postgreSQL) query is required''], db, w)
         else caught (execute_query be db w (QueryText (dict_get d ''query'' JNull)) cid
                        (query_params d)))
      else if name = ''pg_list_schemas'' then caught (execute_query be db w ListSchemas cid None)
      else if name = ''pg_list_tables'' then
        caught (execute_query be db w ListTables cid (Some [schema]))
      else if name = ''pg_list_table_metadata'' then
        caught (execute_query be db w ListTableMetadata cid
                  (Some [schema, dict_get d ''table_name'' JNull]))
      else if name = ''pg_list_columns_metadata'' then
        caught (with_table_name d db w
                  (\<lambda>t. execute_query be db w ListColumnsMetadata cid (Some [schema, t])))
      else if name = ''pg_count_table_rows'' then
        caught (with_table_name d db w
                  (\<lambda>t. execute_query be db w (CountTableRows schema t) cid None))
      else if name = ''pg_sample_table_rows'' then
        caught (with_table_name d db w
                  (\<lambda>t. execute_query be db w (SampleTableRows schema t) cid None))
      else (Some [PlainText (''Unknown tool: '' @ name)], db, w))"

section \<open>Calls that overlap on the event loop\<close>

text \<open>
  The coroutines run on one asyncio event loop: a call runs alone until it reaches an
  \<^verbatim>\<open>await\<close> that suspends, and other calls run before it is resumed. A call of
  \<^verbatim>\<open>get_connection\<close> is in one of four places: not started; suspended in
  \<^verbatim>\<open>await asyncpg.create_pool(...)\<close> with the identifier and the credential it read;
  holding its connection; or ended by an exception.
\<close>

datatype task =
    Start "string option"
  | Creating string json
  | Holding connection
  | Raised error

definition task_of :: "error + connection \<Rightarrow> task" where
  "task_of r = (case r of Inl e \<Rightarrow> Raised e | Inr c \<Rightarrow> Holding c)"

text \<open>One uninterrupted stretch of a call, from where it is to its next suspension.\<close>

definition task_step ::
  "backend \<Rightarrow> task \<Rightarrow> database \<Rightarrow> world \<Rightarrow> task \<times> database \<times> world" where
  "task_step be t db w =
     (case t of
        Start conn_id \<Rightarrow>
          if \<not> in_pools db conn_id then
            (case initialize_begin db conn_id of
               Inl e \<Rightarrow> (Raised e, db, w)
             | Inr None \<Rightarrow> (task_of (pool_acquire db conn_id), db, w)
             | Inr (Some conn_str) \<Rightarrow> (Creating (the conn_id) conn_str, db, w))
          else (task_of (pool_acquire db conn_id), db, w)
      | Creating cid conn_str \<Rightarrow>
          (case initialize_finish be db w cid conn_str of
             (Inl e, db', w') \<Rightarrow> (Raised e, db', w')
           | (Inr u, db', w') \<Rightarrow> (task_of (pool_acquire db' (Some cid)), db', w'))
      | Holding c \<Rightarrow> (t, db, w)
      | Raised e \<Rightarrow> (t, db, w))"

text \<open>
  A schedule names, stretch by stretch, the call that the event loop runs next.
\<close>

fun run_schedule ::
  "backend \<Rightarrow> nat list \<Rightarrow> task list \<Rightarrow> database \<Rightarrow> world \<Rightarrow> task list \<times> database \<times> world" where
  "run_schedule be [] ts db w = (ts, db, w)"
| "run_schedule be (i # sched) ts db w =
     (if i < length ts
      then (case task_step be (ts ! i) db w of
              (t', db', w') \<Rightarrow> run_schedule be sched (ts[i := t']) db' w')
      else run_schedule be sched ts db w)"

text \<open>Calls made one after the other, each returning before the next one starts.\<close>

fun get_connections ::
  "backend \<Rightarrow> string option list \<Rightarrow> database \<Rightarrow> world \<Rightarrow> database \<times> world" where
  "get_connections be [] db w = (db, w)"
| "get_connections be (c # cs) db w =
     (case get_connection be db w c of (r, db', w') \<Rightarrow> get_connections be cs db' w')"

section \<open>The states the manager can be in\<close>

text \<open>
  The operations that change the pool manager or the world: a turn of the refresh loop,
  \<^verbatim>\<open>get_connection\<close>, \<^verbatim>\<open>close\<close>, \<^verbatim>\<open>initialize\<close> and a tool call.
\<close>

datatype operation =
    Refresh config_read
  | GetConnection "string option"
  | Initialize "string option"
  | Close "string option"
  | CallTool server string "(string \<times> json) list option"

definition apply_op ::
  "backend \<Rightarrow> (string \<Rightarrow> string) \<Rightarrow> operation \<Rightarrow> database \<times> world \<Rightarrow> database \<times> world" where
  "apply_op be sha1 op s =
     (case s of (db, w) \<Rightarrow>
        (case op of
           Refresh src \<Rightarrow> (fst (refresh_iteration sha1 src db), w)
         | GetConnection c \<Rightarrow> snd (get_connection be db w c)
         | Initialize c \<Rightarrow> snd (initialize be db w c)
         | Close c \<Rightarrow> snd (close db w c)
         | CallTool srv name arguments \<Rightarrow> snd (handle_call_tool be srv db w name arguments)))"

definition run_ops ::
  "backend \<Rightarrow> (string \<Rightarrow> string) \<Rightarrow> operation list \<Rightarrow> database \<times> world" where
  "run_ops be sha1 ops = foldl (\<lambda>s op. apply_op be sha1 op s) (Database_init, world_init) ops"



text \<open>
  The pool object that \<^verbatim>\<open>initialize\<close> constructs for the credential \<open>conn_str\<close> when
  \<open>w\<close> is the world before the call.
\<close>

definition fresh_pool :: "world \<Rightarrow> json \<Rightarrow> pool" where
  "fresh_pool w conn_str =
     \<lparr>pool_id = next_pool_id w, dsn = conn_str, min_size = 2, max_size = 4,
      command_timeout = 60, server_settings = [(''default_transaction_read_only'', ''true'')]\<rparr>"

section \<open>Sample surroundings\<close>

text \<open>
  A library and a database server to run the definitions on: every key is accepted, the
  signature of a payload is the key itself, every connection succeeds and every query
  returns no rows. The digest used with them is the identity.
\<close>

definition sample_jwt_lib :: jwt_lib where
  "sample_jwt_lib = \<lparr>hs256 = (\<lambda>key p. key), key_error = (\<lambda>key. None)\<rparr>"

text \<open>
  A library that, as PyJWT does, refuses a key in PEM format as an HMAC secret.
\<close>

definition strict_jwt_lib :: jwt_lib where
  "strict_jwt_lib =
     \<lparr>hs256 = (\<lambda>key p. key),
      key_error = (\<lambda>key. if take 10 key = ''-----BEGIN''
                          then Some ''The specified key is an asymmetric key or x509 certificate and should not be used as an HMAC secret.''
                          else None)\<rparr>"

definition sample_backend :: backend where
  "sample_backend =
     \<lparr>connect_error = (\<lambda>conn_str. None),
      execute_error = (\<lambda>pid stmt. None),
      fetch_result = (\<lambda>pid stmt ps. Inr [])\<rparr>"

section \<open>Auxiliary facts\<close>

subsection \<open>Sorting the items of a dict, and association lists\<close>

lemma sort_key_same:
  assumes "distinct (map fst xs)" "distinct (map fst ys)" "map_of xs = map_of ys"
  shows "sort_key fst xs = sort_key fst (ys :: ('a::linorder \<times> 'b) list)"
proof -
  have s: "set xs = set ys" using assms by (simp add: map_of_inject_set)
  have i: "inj_on fst (set (sort_key fst xs) \<union> set (sort_key fst ys))"
    using assms(1) s by (simp add: distinct_map)
  have dx: "distinct (map fst (sort_key fst xs))"
    using assms(1) by (simp add: distinct_map)
  have dy: "distinct (map fst (sort_key fst ys))"
    using assms(2) by (simp add: distinct_map)
  show ?thesis
    by (rule map_sorted_distinct_set_unique[OF i _ dx _ dy]) (simp_all add: s)
qed





subsection \<open>Every operation keeps the pool map in order\<close>


lemma pools_refresh_iteration: "pools (fst (refresh_iteration sha1 src db)) = pools db"
  by (simp add: refresh_iteration_def reload_config_if_changed_def Let_def split: config_read.splits)


















subsection \<open>The hash after a reload\<close>

lemma last_hash_after_refresh:
  "last_config_hash (fst (refresh_iteration sha1 (Parsed content) db)) = Some (hash_config sha1 content)"
  by (simp add: refresh_iteration_def reload_config_if_changed_def Let_def)

section \<open>The refresh step\<close>

text \<open>
  Claim C2. The refresh step is idempotent under unchanged content. When the content read
  from the Config Source hashes to the last applied hash, the reload returns without
  touching the state: the connection map, the stored hash and every pool stay as they
  were, and nothing is logged. The hash is taken over the key-sorted serialisation, so
  two documents that are the same mapping with their keys in a different order have the
  same hash, and reading the second after the first has been applied changes nothing.
\<close>

theorem reload_unchanged_content_is_noop:
  "(last_config_hash db = Some (hash_config sha1 content) \<longrightarrow>
      reload_config_if_changed sha1 (Parsed content) db = (Inr (), db, []) \<and>
      refresh_iteration sha1 (Parsed content) db = (db, []))
   \<and> (distinct (map fst xs) \<and> distinct (map fst ys) \<and> map_of xs = map_of ys \<longrightarrow>
      hash_config sha1 (JObject xs) = hash_config sha1 (JObject ys) \<and>
      refresh_iteration sha1 (Parsed (JObject ys))
          (fst (refresh_iteration sha1 (Parsed (JObject xs)) db))
        = (fst (refresh_iteration sha1 (Parsed (JObject xs)) db), []))"
proof (intro conjI impI)
  assume "last_config_hash db = Some (hash_config sha1 content)"
  then show "reload_config_if_changed sha1 (Parsed content) db = (Inr (), db, [])"
    by (simp add: reload_config_if_changed_def)
  then show "refresh_iteration sha1 (Parsed content) db = (db, [])"
    by (simp add: refresh_iteration_def)
next
  assume a: "distinct (map fst xs) \<and> distinct (map fst ys) \<and> map_of xs = map_of ys"
  then have "sort_key fst xs = sort_key fst ys" by (intro sort_key_same) simp_all
  then show h: "hash_config sha1 (JObject xs) = hash_config sha1 (JObject ys)"
    by (simp add: hash_config_def)
  define db1 where "db1 = fst (refresh_iteration sha1 (Parsed (JObject xs)) db)"
  have "last_config_hash db1 = Some (hash_config sha1 (JObject ys))"
    unfolding db1_def by (simp add: last_hash_after_refresh h)
  then have "refresh_iteration sha1 (Parsed (JObject ys)) db1 = (db1, [])"
    by (simp add: refresh_iteration_def reload_config_if_changed_def)
  then show "refresh_iteration sha1 (Parsed (JObject ys))
          (fst (refresh_iteration sha1 (Parsed (JObject xs)) db))
        = (fst (refresh_iteration sha1 (Parsed (JObject xs)) db), [])"
    by (simp add: db1_def)
qed

theorem reload_unchanged_content_is_noop_witness:
  "last_config_hash (Database_init\<lparr>last_config_hash := Some (hash_config (\<lambda>s. s) (JArray []))\<rparr>)
     = Some (hash_config (\<lambda>s. s) (JArray []))
   \<and> distinct (map fst [(''b'', JString ''y''), (''a'', JString ''x'')])
   \<and> distinct (map fst [(''a'', JString ''x''), (''b'', JString ''y'')])
   \<and> map_of [(''b'', JString ''y''), (''a'', JString ''x'')]
       = map_of [(''a'', JString ''x''), (''b'', JString ''y'')]
   \<and> refresh_iteration (\<lambda>s. s) (Parsed (JArray []))
        (Database_init\<lparr>last_config_hash := Some (hash_config (\<lambda>s. s) (JArray []))\<rparr>)
       = (Database_init\<lparr>last_config_hash := Some (hash_config (\<lambda>s. s) (JArray []))\<rparr>, [])
   \<and> hash_config (\<lambda>s. s) (JObject [(''b'', JString ''y''), (''a'', JString ''x'')])
       = hash_config (\<lambda>s. s) (JObject [(''a'', JString ''x''), (''b'', JString ''y'')])"
proof -
  have m: "map_of [(''b'', JString ''y''), (''a'', JString ''x'')]
       = map_of [(''a'', JString ''x''), (''b'', JString ''y'')]"
    by (rule ext) simp
  have d: "distinct (map fst [(''b'', JString ''y''), (''a'', JString ''x'')])"
          "distinct (map fst [(''a'', JString ''x''), (''b'', JString ''y'')])"
    by simp_all
  have l: "last_config_hash (Database_init\<lparr>last_config_hash := Some (hash_config (\<lambda>s. s) (JArray []))\<rparr>)
     = Some (hash_config (\<lambda>s. s) (JArray []))" by simp
  show ?thesis
    using reload_unchanged_content_is_noop
      [of "Database_init\<lparr>last_config_hash := Some (hash_config (\<lambda>s. s) (JArray []))\<rparr>"
          "\<lambda>s. s" "JArray []"
          "[(''b'', JString ''y''), (''a'', JString ''x'')]"
          "[(''a'', JString ''x''), (''b'', JString ''y'')]"] m d l
    by blast
qed

text \<open>
  Claim C4 says that a document whose top-level shape is not a mapping from strings to
  strings is treated as a read failure and the previous snapshot is retained. The reload
  has no check of the shape: the JSON array \<^verbatim>\<open>["x"]\<close>, read into the initial state,
  becomes the connection map and its hash the last applied hash.
\<close>

theorem non_mapping_document_is_applied:
  "refresh_iteration id (Parsed (JArray [JString ''x''])) Database_init
     = (\<lparr>pools = [], connection_map = JArray [JString ''x''],
         last_config_hash = Some ''[\"x\"]''\<rparr>,
        [LogInfo ''Detected config map change, updating connections''])"
  by code_simp

text \<open>
  Claim C4, amended. A read of the Config Source that raises (the file cannot be opened
  or read, or its content is not JSON) is a failure: the state is retained, the failure
  is logged, and the loop goes on to the read of the next interval. No reload touches
  the pools. A document that parses is not checked for its shape: whatever JSON value
  it is, when its hash differs from the last applied hash it becomes the connection map
  and its hash the last applied hash.
\<close>

theorem reload_failure_retains_snapshot:
  "refresh_iteration sha1 (ReadRaises msg) db
     = (db, [LogError (''Error during config refresh: '' @ msg)])
   \<and> refresh_loop sha1 (ReadRaises msg # srcs) db
     = (fst (refresh_loop sha1 srcs db),
        LogError (''Error during config refresh: '' @ msg) # snd (refresh_loop sha1 srcs db))
   \<and> pools (fst (refresh_iteration sha1 src db)) = pools db
   \<and> (last_config_hash db \<noteq> Some (hash_config sha1 content) \<longrightarrow>
        refresh_iteration sha1 (Parsed content) db
          = (db\<lparr>last_config_hash := Some (hash_config sha1 content), connection_map := content\<rparr>,
             [LogInfo ''Detected config map change, updating connections'']))"
proof -
  have a: "refresh_iteration sha1 (ReadRaises msg) db
     = (db, [LogError (''Error during config refresh: '' @ msg)])"
    by (simp add: refresh_iteration_def reload_config_if_changed_def str_of_error_def)
  have b: "refresh_loop sha1 (ReadRaises msg # srcs) db
     = (fst (refresh_loop sha1 srcs db),
        LogError (''Error during config refresh: '' @ msg) # snd (refresh_loop sha1 srcs db))"
    by (simp add: a split: prod.splits)
  have c: "last_config_hash db \<noteq> Some (hash_config sha1 content) \<longrightarrow>
        refresh_iteration sha1 (Parsed content) db
          = (db\<lparr>last_config_hash := Some (hash_config sha1 content), connection_map := content\<rparr>,
             [LogInfo ''Detected config map change, updating connections''])"
    by (auto simp: refresh_iteration_def reload_config_if_changed_def Let_def)
  show ?thesis using a b c pools_refresh_iteration by blast
qed

theorem reload_failure_retains_snapshot_witness:
  "last_config_hash Database_init \<noteq> Some (hash_config id (JInt 5))
   \<and> refresh_iteration id (Parsed (JInt 5)) Database_init
       = (Database_init\<lparr>last_config_hash := Some (hash_config id (JInt 5)),
                        connection_map := JInt 5\<rparr>,
          [LogInfo ''Detected config map change, updating connections''])"
proof -
  have h: "last_config_hash Database_init \<noteq> Some (hash_config id (JInt 5))"
    by (simp add: Database_init_def)
  show ?thesis
    using reload_failure_retains_snapshot
            [where ?sha1.0 = id and db = Database_init and content = "JInt 5"] h
    by blast
qed

section \<open>Tokens\<close>

subsection \<open>What the issuer writes and the verifier accepts\<close>

lemma generate_jwt_token_ok:
  assumes "key_error lib (jwt_secret u) = None"
  shows "generate_jwt_token lib u t uid =
           Inr (Compact ''HS256''
                  \<lparr>user_id = Some uid, iat = Some (t div 1000000),
                   exp = Some (t div 1000000 + 86400)\<rparr>
                  (hs256 lib (jwt_secret u)
                     \<lparr>user_id = Some uid, iat = Some (t div 1000000),
                      exp = Some (t div 1000000 + 86400)\<rparr>))"
proof -
  have "(t + 24 * 3600 * 1000000) div 1000000 = t div 1000000 + 86400" by simp
  with assms show ?thesis
    by (simp add: generate_jwt_token_def jwt_encode_def Let_def)
qed

lemma verify_issued_token:
  assumes "key_error lib (jwt_secret u) = None"
    and "p = \<lparr>user_id = Some uid, iat = Some i, exp = Some e\<rparr>"
  shows "verify_jwt_token lib u now (Compact ''HS256'' p (hs256 lib (jwt_secret u) p)) =
           (if now < i * 1000000 \<or> e * 1000000 \<le> now
            then Inl (ValueError ''Invalid or expired JWT token'')
            else Inr p)"
  using assms
  by (simp add: verify_jwt_token_def jwt_decode_def is_InvalidTokenError_def)

text \<open>
  Claim C3. Token round trip. For every subject, with a secret the library accepts as
  an HMAC key, issuing at the time \<open>t\<close> gives a token whose \<^verbatim>\<open>iat\<close> is \<open>t\<close> in whole
  seconds and whose \<^verbatim>\<open>exp\<close> is 24 hours later. Verifying it at a time \<open>now\<close> not before
  the issuance and before the expiry returns the payload with that subject as
  \<^verbatim>\<open>user_id\<close>; verifying it after the expiry, and in particular 25 hours after the
  issuance, fails with the \<^verbatim>\<open>ValueError\<close> "Invalid or expired JWT token".
\<close>

theorem token_round_trip:
  assumes "key_error lib (jwt_secret u) = None"
  shows "\<exists>tok. generate_jwt_token lib u t uid = Inr tok \<and>
           (t \<le> now \<and> now < (t div 1000000 + 24 * 3600) * 1000000 \<longrightarrow>
              verify_jwt_token lib u now tok
                = Inr \<lparr>user_id = Some uid, iat = Some (t div 1000000),
                       exp = Some (t div 1000000 + 24 * 3600)\<rparr>) \<and>
           ((t div 1000000 + 24 * 3600) * 1000000 < now \<longrightarrow>
              verify_jwt_token lib u now tok = Inl (ValueError ''Invalid or expired JWT token'')) \<and>
           verify_jwt_token lib u (t + 25 * 3600 * 1000000) tok
             = Inl (ValueError ''Invalid or expired JWT token'')"
proof -
  define p where "p = \<lparr>user_id = Some uid, iat = Some (t div 1000000),
                        exp = Some (t div 1000000 + 86400)\<rparr>"
  define tok where "tok = Compact ''HS256'' p (hs256 lib (jwt_secret u) p)"
  have g: "generate_jwt_token lib u t uid = Inr tok"
    using generate_jwt_token_ok[OF assms] by (simp add: tok_def p_def)
  have v: "\<And>n. verify_jwt_token lib u n tok =
           (if n < (t div 1000000) * 1000000 \<or> (t div 1000000 + 86400) * 1000000 \<le> n
            then Inl (ValueError ''Invalid or expired JWT token'')
            else Inr p)"
    unfolding tok_def by (rule verify_issued_token[OF assms]) (simp add: p_def)
  have fl: "(t div 1000000) * 1000000 \<le> t"
    by simp
  have before: "t \<le> now \<and> now < (t div 1000000 + 24 * 3600) * 1000000 \<longrightarrow>
                  verify_jwt_token lib u now tok = Inr p"
    using fl by (auto simp: v)
  have after: "(t div 1000000 + 24 * 3600) * 1000000 < now \<longrightarrow>
                  verify_jwt_token lib u now tok = Inl (ValueError ''Invalid or expired JWT token'')"
    by (auto simp: v)
  have "(t div 1000000 + 86400) * 1000000 \<le> t + 25 * 3600 * 1000000"
    using fl by simp
  then have skew: "verify_jwt_token lib u (t + 25 * 3600 * 1000000) tok
             = Inl (ValueError ''Invalid or expired JWT token'')" by (simp add: v)
  show ?thesis
    using g before after skew by (intro exI[of _ tok]) (simp add: p_def)
qed

theorem token_round_trip_witness:
  "key_error sample_jwt_lib (jwt_secret \<lparr>jwt_secret = ''s''\<rparr>) = None
   \<and> (0::int) \<le> 3600000000 \<and> (3600000000::int) < (0 div 1000000 + 24 * 3600) * 1000000
   \<and> ((0::int) div 1000000 + 24 * 3600) * 1000000 < 90000000000
   \<and> (\<exists>tok. generate_jwt_token sample_jwt_lib \<lparr>jwt_secret = ''s''\<rparr> 0 ''alice'' = Inr tok \<and>
         verify_jwt_token sample_jwt_lib \<lparr>jwt_secret = ''s''\<rparr> 3600000000 tok
           = Inr \<lparr>user_id = Some ''alice'', iat = Some 0, exp = Some 86400\<rparr>)
   \<and> (\<exists>tok. generate_jwt_token sample_jwt_lib \<lparr>jwt_secret = ''s''\<rparr> 0 ''alice'' = Inr tok \<and>
         verify_jwt_token sample_jwt_lib \<lparr>jwt_secret = ''s''\<rparr> 90000000000 tok
           = Inl (ValueError ''Invalid or expired JWT token''))"
proof -
  have k: "key_error sample_jwt_lib (jwt_secret \<lparr>jwt_secret = ''s''\<rparr>) = None"
    by (simp add: sample_jwt_lib_def)
  show ?thesis
    using k token_round_trip [OF k, of 0 "''alice''" 3600000000]
            token_round_trip [OF k, of 0 "''alice''" 90000000000]
    by simp blast
qed

text \<open>
  Beside the failures of \<^verbatim>\<open>jwt.decode\<close>, the verifier has one of its own: a token that
  is signed with the secret, neither immature nor expired, and has no \<^verbatim>\<open>user_id\<close> in
  its payload fails with a \<^verbatim>\<open>ValueError\<close> of its own wording, which the middleware copies
  into the body of its 401 response.
\<close>

lemma missing_user_id_has_its_own_message:
  assumes "key_error lib (jwt_secret u) = None" and "user_id p = None"
    and "\<forall>i. iat p = Some i \<longrightarrow> i * 1000000 \<le> now"
    and "\<forall>e. exp p = Some e \<longrightarrow> now < e * 1000000"
  shows "verify_jwt_token lib u now (Compact ''HS256'' p (hs256 lib (jwt_secret u) p))
           = Inl (ValueError ''Invalid JWT payload: user_id missing'')"
    and "path req \<notin> set [''/metrics'', ''/'', ''/health_check'', ''/token''] \<Longrightarrow>
         auth_header req = Bearer (Compact ''HS256'' p (hs256 lib (jwt_secret u) p)) \<Longrightarrow>
         dispatch lib u now req
           = JSONResponse [(''error'', ''Invalid JWT payload: user_id missing'')] 401"
proof -
  from assms
  show v: "verify_jwt_token lib u now (Compact ''HS256'' p (hs256 lib (jwt_secret u) p))
           = Inl (ValueError ''Invalid JWT payload: user_id missing'')"
    by (auto simp: verify_jwt_token_def jwt_decode_def split: option.splits)
  assume "path req \<notin> set [''/metrics'', ''/'', ''/health_check'', ''/token'']"
    and "auth_header req = Bearer (Compact ''HS256'' p (hs256 lib (jwt_secret u) p))"
  with v show "dispatch lib u now req
           = JSONResponse [(''error'', ''Invalid JWT payload: user_id missing'')] 401"
    by (simp add: dispatch_def)
qed

text \<open>
  Claim C7 says that every token that is structurally defective, carries a bad signature
  or is past its expiry fails with one and the same error value. The verifier catches
  \<^verbatim>\<open>jwt.InvalidTokenError\<close> only. With a secret that the library refuses as an HMAC key,
  a token that is not a token at all still fails with the uniform \<^verbatim>\<open>ValueError\<close> and a
  401 response, but a well-formed token with a bad signature fails with the library's
  \<^verbatim>\<open>InvalidKeyError\<close>, which leaves the verifier and the middleware as it is.
\<close>

theorem refused_secret_breaks_uniformity:
  "verify_jwt_token strict_jwt_lib \<lparr>jwt_secret = ''-----BEGIN PUBLIC KEY-----''\<rparr> 0
        (Malformed ''junk'')
     = Inl (ValueError ''Invalid or expired JWT token'')
   \<and> verify_jwt_token strict_jwt_lib \<lparr>jwt_secret = ''-----BEGIN PUBLIC KEY-----''\<rparr> 0
        (Compact ''HS256'' \<lparr>user_id = Some ''alice'', iat = Some 0, exp = Some 86400\<rparr> ''forged'')
     = Inl (LibraryError ''The specified key is an asymmetric key or x509 certificate and should not be used as an HMAC secret.'')
   \<and> dispatch strict_jwt_lib \<lparr>jwt_secret = ''-----BEGIN PUBLIC KEY-----''\<rparr> 0
        \<lparr>path = ''/pg/k'', auth_header = Bearer (Malformed ''junk'')\<rparr>
     = JSONResponse [(''error'', ''Invalid or expired JWT token'')] 401
   \<and> dispatch strict_jwt_lib \<lparr>jwt_secret = ''-----BEGIN PUBLIC KEY-----''\<rparr> 0
        \<lparr>path = ''/pg/k'',
         auth_header = Bearer (Compact ''HS256''
            \<lparr>user_id = Some ''alice'', iat = Some 0, exp = Some 86400\<rparr> ''forged'')\<rparr>
     = Escapes (LibraryError ''The specified key is an asymmetric key or x509 certificate and should not be used as an HMAC secret.'')"
  by (simp add: verify_jwt_token_def jwt_decode_def is_InvalidTokenError_def dispatch_def
                strict_jwt_lib_def)

text \<open>
  Claim C7, amended. When the secret is one the library accepts as an HMAC key, every
  token that is structurally defective (malformed, or naming another algorithm than
  HS256), carries a bad signature or is past its expiry fails with the one \<^verbatim>\<open>ValueError\<close>
  "Invalid or expired JWT token", and the 401 response to a request that carries it has
  that message as its \<^verbatim>\<open>error\<close>: which of the checks failed is not told.
\<close>

theorem decode_failures_are_uniform:
  assumes "key_error lib (jwt_secret u) = None"
  shows "(tok = Malformed s \<or> tok = Compact alg q sg \<and>
            (alg \<noteq> ''HS256'' \<or> sg \<noteq> hs256 lib (jwt_secret u) q \<or>
             (\<exists>e. exp q = Some e \<and> e * 1000000 \<le> now)))
          \<longrightarrow> verify_jwt_token lib u now tok = Inl (ValueError ''Invalid or expired JWT token'')
              \<and> (path req \<notin> set [''/metrics'', ''/'', ''/health_check'', ''/token'']
                   \<and> auth_header req = Bearer tok
                 \<longrightarrow> dispatch lib u now req
                       = JSONResponse [(''error'', ''Invalid or expired JWT token'')] 401)"
proof (intro conjI impI)
  assume d: "tok = Malformed s \<or> tok = Compact alg q sg \<and>
            (alg \<noteq> ''HS256'' \<or> sg \<noteq> hs256 lib (jwt_secret u) q \<or>
             (\<exists>e. exp q = Some e \<and> e * 1000000 \<le> now))"
  with assms show v: "verify_jwt_token lib u now tok = Inl (ValueError ''Invalid or expired JWT token'')"
    by (auto simp: verify_jwt_token_def jwt_decode_def is_InvalidTokenError_def
             split: option.splits)
  assume "path req \<notin> set [''/metrics'', ''/'', ''/health_check'', ''/token'']
                   \<and> auth_header req = Bearer tok"
  with v show "dispatch lib u now req
                       = JSONResponse [(''error'', ''Invalid or expired JWT token'')] 401"
    by (simp add: dispatch_def)
qed

theorem decode_failures_are_uniform_witness:
  "key_error sample_jwt_lib (jwt_secret \<lparr>jwt_secret = ''s''\<rparr>) = None
   \<and> ''forged'' \<noteq> hs256 sample_jwt_lib (jwt_secret \<lparr>jwt_secret = ''s''\<rparr>)
             \<lparr>user_id = Some ''alice'', iat = Some 0, exp = Some 86400\<rparr>
   \<and> path \<lparr>path = ''/pg/k'', auth_header = Bearer
            (Compact ''HS256'' \<lparr>user_id = Some ''alice'', iat = Some 0, exp = Some 86400\<rparr> ''forged'')\<rparr>
        \<notin> set [''/metrics'', ''/'', ''/health_check'', ''/token'']
   \<and> verify_jwt_token sample_jwt_lib \<lparr>jwt_secret = ''s''\<rparr> 5000000
         (Compact ''HS256'' \<lparr>user_id = Some ''alice'', iat = Some 0, exp = Some 86400\<rparr> ''forged'')
       = Inl (ValueError ''Invalid or expired JWT token'')
   \<and> dispatch sample_jwt_lib \<lparr>jwt_secret = ''s''\<rparr> 5000000
         \<lparr>path = ''/pg/k'', auth_header = Bearer
            (Compact ''HS256'' \<lparr>user_id = Some ''alice'', iat = Some 0, exp = Some 86400\<rparr> ''forged'')\<rparr>
       = JSONResponse [(''error'', ''Invalid or expired JWT token'')] 401
   \<and> verify_jwt_token sample_jwt_lib \<lparr>jwt_secret = ''s''\<rparr> 5000000 (Malformed ''junk'')
       = Inl (ValueError ''Invalid or expired JWT token'')
   \<and> verify_jwt_token sample_jwt_lib \<lparr>jwt_secret = ''s''\<rparr> 5000000
         (Compact ''HS256'' \<lparr>user_id = Some ''alice'', iat = Some 0, exp = Some 1\<rparr> ''s'')
       = Inl (ValueError ''Invalid or expired JWT token'')"
proof -
  have k: "key_error sample_jwt_lib (jwt_secret \<lparr>jwt_secret = ''s''\<rparr>) = None"
    by (simp add: sample_jwt_lib_def)
  have f: "''forged'' \<noteq> hs256 sample_jwt_lib (jwt_secret \<lparr>jwt_secret = ''s''\<rparr>)
             \<lparr>user_id = Some ''alice'', iat = Some 0, exp = Some 86400\<rparr>"
    by (simp add: sample_jwt_lib_def)
  have e: "exp \<lparr>user_id = Some ''alice'', iat = Some 0, exp = Some 1\<rparr> = Some 1
           \<and> (1::int) * 1000000 \<le> 5000000"
    by simp
  show ?thesis
    using k f e
      decode_failures_are_uniform [OF k,
        where tok = "Compact ''HS256'' \<lparr>user_id = Some ''alice'', iat = Some 0, exp = Some 86400\<rparr> ''forged''"
          and alg = "''HS256''" and q = "\<lparr>user_id = Some ''alice'', iat = Some 0, exp = Some 86400\<rparr>"
          and sg = "''forged''" and now = 5000000
          and req = "\<lparr>path = ''/pg/k'', auth_header = Bearer
            (Compact ''HS256'' \<lparr>user_id = Some ''alice'', iat = Some 0, exp = Some 86400\<rparr> ''forged'')\<rparr>"]
      decode_failures_are_uniform [OF k,
        where tok = "Malformed ''junk''" and s = "''junk''" and now = 5000000]
      decode_failures_are_uniform [OF k,
        where tok = "Compact ''HS256'' \<lparr>user_id = Some ''alice'', iat = Some 0, exp = Some 1\<rparr> ''s''"
          and alg = "''HS256''" and q = "\<lparr>user_id = Some ''alice'', iat = Some 0, exp = Some 1\<rparr>"
          and sg = "''s''" and now = 5000000]
    by simp
qed

text \<open>
  Claim C8 says that the start aborts when the signing secret is not available. With no
  secret passed and \<^verbatim>\<open>JWT_SECRET\<close> unset, \<^verbatim>\<open>JWTUtils()\<close> is constructed with the secret
  \<^verbatim>\<open>default-secret\<close>, and tokens are issued under it.
\<close>

theorem unset_secret_falls_back_to_default:
  "JWTUtils_init None Map.empty = \<lparr>jwt_secret = ''default-secret''\<rparr>
   \<and> generate_jwt_token sample_jwt_lib (JWTUtils_init None Map.empty) 0 ''alice''
       = Inr (Compact ''HS256'' \<lparr>user_id = Some ''alice'', iat = Some 0, exp = Some 86400\<rparr>
                ''default-secret'')"
  by (simp add: JWTUtils_init_def falsy_def generate_jwt_token_def jwt_encode_def
                sample_jwt_lib_def)

text \<open>
  Claim C8, amended. The construction of the token issuer and verifier never fails. Its
  secret is the one passed to it when that is not empty, otherwise the value of
  \<^verbatim>\<open>JWT_SECRET\<close> when the variable is set, otherwise the fixed text \<^verbatim>\<open>default-secret\<close>;
  and with \<^verbatim>\<open>JWT_SECRET\<close> unset, tokens are issued and verified under
  \<^verbatim>\<open>default-secret\<close>.
\<close>

theorem secret_is_argument_or_environment_or_default:
  "(falsy a \<and> environ ''JWT_SECRET'' = None \<longrightarrow>
      jwt_secret (JWTUtils_init a environ) = ''default-secret'')
   \<and> (falsy a \<and> environ ''JWT_SECRET'' = Some v \<longrightarrow> jwt_secret (JWTUtils_init a environ) = v)
   \<and> (a = Some s \<and> s \<noteq> [] \<longrightarrow> jwt_secret (JWTUtils_init a environ) = s)
   \<and> (falsy a \<and> environ ''JWT_SECRET'' = None \<and> key_error lib ''default-secret'' = None
        \<and> t \<le> now \<and> now < (t div 1000000 + 24 * 3600) * 1000000 \<longrightarrow>
       (\<exists>tok. generate_jwt_token lib (JWTUtils_init a environ) t uid = Inr tok \<and>
              verify_jwt_token lib (JWTUtils_init a environ) now tok
                = Inr \<lparr>user_id = Some uid, iat = Some (t div 1000000),
                       exp = Some (t div 1000000 + 24 * 3600)\<rparr>))"
proof (intro conjI impI)
  assume h: "falsy a \<and> environ ''JWT_SECRET'' = None \<and> key_error lib ''default-secret'' = None
        \<and> t \<le> now \<and> now < (t div 1000000 + 24 * 3600) * 1000000"
  define u where "u = JWTUtils_init a environ"
  define p where "p = \<lparr>user_id = Some uid, iat = Some (t div 1000000),
                        exp = Some (t div 1000000 + 86400)\<rparr>"
  from h have s: "jwt_secret u = ''default-secret''" by (simp add: u_def JWTUtils_init_def)
  with h have k: "key_error lib (jwt_secret u) = None" by simp
  have fl: "(t div 1000000) * 1000000 \<le> t" by simp
  have g: "generate_jwt_token lib u t uid = Inr (Compact ''HS256'' p (hs256 lib (jwt_secret u) p))"
    using generate_jwt_token_ok[OF k] by (simp add: p_def)
  have "verify_jwt_token lib u now (Compact ''HS256'' p (hs256 lib (jwt_secret u) p)) = Inr p"
    using verify_issued_token[OF k, of p uid "t div 1000000" "t div 1000000 + 86400" now] h fl
    by (simp add: p_def)
  with g show "\<exists>tok. generate_jwt_token lib (JWTUtils_init a environ) t uid = Inr tok \<and>
              verify_jwt_token lib (JWTUtils_init a environ) now tok
                = Inr \<lparr>user_id = Some uid, iat = Some (t div 1000000),
                       exp = Some (t div 1000000 + 24 * 3600)\<rparr>"
    by (auto simp: u_def p_def)
qed (auto simp: JWTUtils_init_def falsy_def)

theorem secret_is_argument_or_environment_or_default_witness:
  "falsy None \<and> (Map.empty :: string \<rightharpoonup> string) ''JWT_SECRET'' = None
   \<and> key_error sample_jwt_lib ''default-secret'' = None
   \<and> (0::int) \<le> 1 \<and> (1::int) < (0 div 1000000 + 24 * 3600) * 1000000
   \<and> falsy (Some []) \<and> [''JWT_SECRET'' \<mapsto> ''e''] ''JWT_SECRET'' = Some ''e''
   \<and> ''a'' \<noteq> []
   \<and> jwt_secret (JWTUtils_init None Map.empty) = ''default-secret''
   \<and> jwt_secret (JWTUtils_init (Some []) [''JWT_SECRET'' \<mapsto> ''e'']) = ''e''
   \<and> jwt_secret (JWTUtils_init (Some ''a'') Map.empty) = ''a''
   \<and> (\<exists>tok. generate_jwt_token sample_jwt_lib (JWTUtils_init None Map.empty) 0 ''alice'' = Inr tok \<and>
              verify_jwt_token sample_jwt_lib (JWTUtils_init None Map.empty) 1 tok
                = Inr \<lparr>user_id = Some ''alice'', iat = Some 0, exp = Some 86400\<rparr>)"
proof -
  have k: "key_error sample_jwt_lib ''default-secret'' = None" by (simp add: sample_jwt_lib_def)
  have f: "falsy None" "falsy (Some [])" by (simp_all add: falsy_def)
  show ?thesis
    using k f
      secret_is_argument_or_environment_or_default
        [where a = None and environ = Map.empty and lib = sample_jwt_lib and t = 0 and now = 1
           and uid = "''alice''"]
      secret_is_argument_or_environment_or_default
        [where a = "Some []" and environ = "[''JWT_SECRET'' \<mapsto> ''e'']" and v = "''e''"]
      secret_is_argument_or_environment_or_default
        [where a = "Some ''a''" and s = "''a''" and environ = Map.empty]
    by simp
qed

section \<open>Pools and tool calls\<close>

subsection \<open>What a call of \<^verbatim>\<open>get_connection\<close> comes to\<close>

lemma initialize_finish_cases:
  "initialize_finish be db w cid cs =
     (case connect_error be cs of
        Some m \<Rightarrow> (Inl (LibraryError m), db, w)
      | None \<Rightarrow> (Inr (), db\<lparr>pools := AList.update cid (fresh_pool w cs) (pools db)\<rparr>,
                 w\<lparr>next_pool_id := Suc (next_pool_id w)\<rparr>))"
  by (simp add: initialize_finish_def create_pool_def fresh_pool_def split: option.splits)

lemma pool_acquire_update:
  "pool_acquire (db\<lparr>pools := AList.update cid p (pools db)\<rparr>) (Some cid) = Inr (Connection p)"
  by (simp add: pool_acquire_def AList.update_conv')

lemma get_connection_cases:
  "get_connection be db w c =
     (if in_pools db c then (pool_acquire db c, db, w)
      else if falsy c then (Inl (ValueError ''Connection ID is required''), db, w)
      else (case get_connection_string db (the c) of
              Inl e \<Rightarrow> (Inl e, db, w)
            | Inr cs \<Rightarrow>
                (case connect_error be cs of
                   Some m \<Rightarrow> (Inl (LibraryError m), db, w)
                 | None \<Rightarrow>
                     (Inr (Connection (fresh_pool w cs)),
                      db\<lparr>pools := AList.update (the c) (fresh_pool w cs) (pools db)\<rparr>,
                      w\<lparr>next_pool_id := Suc (next_pool_id w)\<rparr>))))"
proof (cases c)
  case None
  then show ?thesis
    by (simp add: get_connection_def initialize_def initialize_begin_def falsy_def in_pools_def)
next
  case (Some cid)
  then show ?thesis
    by (auto simp: get_connection_def initialize_def initialize_begin_def falsy_def
                   initialize_finish_cases pool_acquire_update
             split: sum.splits option.splits)
qed

lemma in_pools_map_of:
  "in_pools db (Some cid) \<longleftrightarrow> (\<exists>p. map_of (pools db) cid = Some p)"
proof -
  have "cid \<in> fst ` set (pools db) \<longleftrightarrow> map_of (pools db) cid \<noteq> None"
    by (simp add: map_of_eq_None_iff)
  then show ?thesis by (auto simp: in_pools_def)
qed

text \<open>
  Claim C10. On a server instance whose connection identifier is \<^verbatim>\<open>None\<close> or empty,
  every tool call, whatever its name and arguments, returns the one failure result with
  the error "conn_id is required for database operations", and leaves the pool manager
  and the world as they were: no pool is opened or closed and no statement is sent. This
  is the case of a session key without a colon, and of one that ends in a colon.
  \<^verbatim>\<open>Database.initialize\<close> itself rejects such an identifier with a \<^verbatim>\<open>ValueError\<close> and
  changes nothing.
\<close>

theorem tool_call_without_conn_id_fails:
  "(falsy (server_conn_id srv) \<longrightarrow>
      handle_call_tool be srv db w name arguments
        = (Some [Failure ''conn_id is required for database operations''], db, w))
   \<and> (CHR '':'' \<notin> set key \<longrightarrow>
      handle_call_tool be (create_server uid (parse_conn_id key)) db w name arguments
        = (Some [Failure ''conn_id is required for database operations''], db, w))
   \<and> handle_call_tool be (create_server uid (parse_conn_id (key @ '':''))) db w name arguments
        = (Some [Failure ''conn_id is required for database operations''], db, w)
   \<and> (falsy c \<longrightarrow>
      initialize be db w c = (Inl (ValueError ''Connection ID is required''), db, w))"
proof -
  have a: "\<And>s. falsy (server_conn_id s) \<Longrightarrow>
      handle_call_tool be s db w name arguments
        = (Some [Failure ''conn_id is required for database operations''], db, w)"
    by (simp add: handle_call_tool_def Let_def)
  have b: "CHR '':'' \<notin> set key \<Longrightarrow> falsy (server_conn_id (create_server uid (parse_conn_id key)))"
    by (simp add: create_server_def parse_conn_id_def falsy_def)
  have c: "falsy (server_conn_id (create_server uid (parse_conn_id (key @ '':''))))"
    by (simp add: create_server_def parse_conn_id_def falsy_def)
  have d: "falsy c \<Longrightarrow>
      initialize be db w c = (Inl (ValueError ''Connection ID is required''), db, w)"
    by (simp add: initialize_def initialize_begin_def)
  show ?thesis using a b c d by blast
qed

theorem tool_call_without_conn_id_fails_witness:
  "falsy (server_conn_id \<lparr>server_user_id = ''alice'', server_conn_id = Some []\<rparr>)
   \<and> CHR '':'' \<notin> set ''alice'' \<and> falsy None
   \<and> handle_call_tool sample_backend \<lparr>server_user_id = ''alice'', server_conn_id = Some []\<rparr>
        Database_init world_init ''pg_query'' (Some [(''query'', JString ''select 1'')])
        = (Some [Failure ''conn_id is required for database operations''], Database_init, world_init)
   \<and> handle_call_tool sample_backend (create_server ''alice'' (parse_conn_id ''alice''))
        Database_init world_init ''pg_connect'' None
        = (Some [Failure ''conn_id is required for database operations''], Database_init, world_init)
   \<and> initialize sample_backend Database_init world_init None
        = (Inl (ValueError ''Connection ID is required''), Database_init, world_init)"
proof -
  have f: "falsy (server_conn_id \<lparr>server_user_id = ''alice'', server_conn_id = Some []\<rparr>)"
          "falsy None"
    by (simp_all add: falsy_def)
  have k: "CHR '':'' \<notin> set ''alice''" by simp
  show ?thesis
    using f k
      tool_call_without_conn_id_fails
        [where srv = "\<lparr>server_user_id = ''alice'', server_conn_id = Some []\<rparr>"
           and be = sample_backend and db = Database_init and w = world_init
           and name = "''pg_query''" and arguments = "Some [(''query'', JString ''select 1'')]"]
      tool_call_without_conn_id_fails
        [where key = "''alice''" and uid = "''alice''"
           and be = sample_backend and db = Database_init and w = world_init
           and name = "''pg_connect''" and arguments = None and c = None]
    by blast
qed

text \<open>
  Claim C1 says that \<^verbatim>\<open>get_connection\<close> fails with the error naming the unknown
  identifier for every identifier absent from the connection map. After the
  configuration has listed \<^verbatim>\<open>a\<close>, a connection has been taken for it and a reload has
  removed it, \<^verbatim>\<open>a\<close> is absent from the map and \<^verbatim>\<open>get_connection\<close> still hands out a
  connection of the open pool. The empty identifier, absent from the initial map, is
  refused with another message, which does not name it. And after a reload has read the
  document \<^verbatim>\<open>5\<close>, the test whether \<^verbatim>\<open>a\<close> is in the map raises a \<^verbatim>\<open>TypeError\<close>.
\<close>

theorem absent_identifier_other_outcomes:
  "py_contains
     (connection_map (fst (run_ops sample_backend id
        [Refresh (Parsed (JObject [(''a'', JString ''dsn'')])),
         GetConnection (Some ''a''),
         Refresh (Parsed (JObject []))]))) ''a'' = Inr False
   \<and> fst (get_connection sample_backend
        (fst (run_ops sample_backend id
           [Refresh (Parsed (JObject [(''a'', JString ''dsn'')])),
            GetConnection (Some ''a''),
            Refresh (Parsed (JObject []))]))
        (snd (run_ops sample_backend id
           [Refresh (Parsed (JObject [(''a'', JString ''dsn'')])),
            GetConnection (Some ''a''),
            Refresh (Parsed (JObject []))]))
        (Some ''a''))
     = Inr (Connection \<lparr>pool_id = 0, dsn = JString ''dsn'', min_size = 2, max_size = 4,
                         command_timeout = 60,
                         server_settings = [(''default_transaction_read_only'', ''true'')]\<rparr>)
   \<and> py_contains (connection_map Database_init) [] = Inr False
   \<and> get_connection sample_backend Database_init world_init (Some [])
     = (Inl (ValueError ''Connection ID is required''), Database_init, world_init)
   \<and> connection_map (fst (run_ops sample_backend id [Refresh (Parsed (JInt 5))])) = JInt 5
   \<and> fst (get_connection sample_backend
        (fst (run_ops sample_backend id [Refresh (Parsed (JInt 5))]))
        (snd (run_ops sample_backend id [Refresh (Parsed (JInt 5))]))
        (Some ''a''))
     = Inl (TypeError (''argument of type '' @ quoted ''int'' @ '' is not iterable''))"
  by code_simp

text \<open>
  Claim C1, amended. For every identifier that is not empty and has no open pool: when
  the connection map is a mapping without an entry for the identifier (or, a reload
  having read such a document, a list that does not have it as an element or a string
  that does not have it as a part), \<^verbatim>\<open>get_connection\<close> fails with the \<^verbatim>\<open>ValueError\<close>
  "Unknown connection ID" followed by the identifier (with a colon in
  \<^verbatim>\<open>server/database.py\<close>); when the connection map is a number, a boolean or null, it
  fails with the \<^verbatim>\<open>TypeError\<close> of the membership test. In both cases the pool map and the
  world are unchanged. An identifier that is \<^verbatim>\<open>None\<close> or empty and has no open pool is
  refused with the \<^verbatim>\<open>ValueError\<close> "Connection ID is required", and an identifier whose
  pool is open is served from that pool whether or not the map still lists it; neither
  changes the pool map.
\<close>

theorem unknown_identifier_is_rejected:
  "(conn_id \<noteq> [] \<and> \<not> in_pools db (Some conn_id) \<and>
      connection_map db = JObject kvs \<and> conn_id \<notin> set (map fst kvs) \<longrightarrow>
        get_connection be db w (Some conn_id)
          = (Inl (ValueError (''Unknown connection ID '' @ conn_id)), db, w) \<and>
        get_connection_string db conn_id = Inl (ValueError (''Unknown connection ID '' @ conn_id)) \<and>
        server_get_connection_string db conn_id
          = Inl (ValueError (''Unknown connection ID: '' @ conn_id)))
   \<and> (conn_id \<noteq> [] \<and> \<not> in_pools db (Some conn_id) \<and>
      (connection_map db = JArray xs \<and> JString conn_id \<notin> set xs \<or>
       connection_map db = JString s \<and> \<not> str_contains s conn_id) \<longrightarrow>
        get_connection be db w (Some conn_id)
          = (Inl (ValueError (''Unknown connection ID '' @ conn_id)), db, w))
   \<and> (conn_id \<noteq> [] \<and> \<not> in_pools db (Some conn_id) \<and>
      (connection_map db = JNull \<or> connection_map db = JBool b \<or>
       connection_map db = JInt i \<or> connection_map db = JFloat r) \<longrightarrow>
        (\<exists>m. get_connection be db w (Some conn_id) = (Inl (TypeError m), db, w)))
   \<and> (falsy c \<and> \<not> in_pools db c \<longrightarrow>
        get_connection be db w c = (Inl (ValueError ''Connection ID is required''), db, w))
   \<and> (map_of (pools db) cid = Some p \<longrightarrow>
        get_connection be db w (Some cid) = (Inr (Connection p), db, w))"
proof (intro conjI impI)
  assume h: "conn_id \<noteq> [] \<and> \<not> in_pools db (Some conn_id) \<and>
      connection_map db = JObject kvs \<and> conn_id \<notin> set (map fst kvs)"
  then show s: "get_connection_string db conn_id
                  = Inl (ValueError (''Unknown connection ID '' @ conn_id))"
    by (simp add: get_connection_string_def py_contains_def)
  from h show "server_get_connection_string db conn_id
          = Inl (ValueError (''Unknown connection ID: '' @ conn_id))"
    by (simp add: server_get_connection_string_def py_contains_def)
  from h s show "get_connection be db w (Some conn_id)
          = (Inl (ValueError (''Unknown connection ID '' @ conn_id)), db, w)"
    by (simp add: get_connection_cases falsy_def)
next
  assume h: "conn_id \<noteq> [] \<and> \<not> in_pools db (Some conn_id) \<and>
      (connection_map db = JArray xs \<and> JString conn_id \<notin> set xs \<or>
       connection_map db = JString s \<and> \<not> str_contains s conn_id)"
  then have "get_connection_string db conn_id
                  = Inl (ValueError (''Unknown connection ID '' @ conn_id))"
    by (auto simp: get_connection_string_def py_contains_def)
  with h show "get_connection be db w (Some conn_id)
          = (Inl (ValueError (''Unknown connection ID '' @ conn_id)), db, w)"
    by (simp add: get_connection_cases falsy_def)
next
  assume h: "conn_id \<noteq> [] \<and> \<not> in_pools db (Some conn_id) \<and>
      (connection_map db = JNull \<or> connection_map db = JBool b \<or>
       connection_map db = JInt i \<or> connection_map db = JFloat r)"
  then have "\<exists>m. get_connection_string db conn_id = Inl (TypeError m)"
    by (auto simp: get_connection_string_def py_contains_def)
  with h show "\<exists>m. get_connection be db w (Some conn_id) = (Inl (TypeError m), db, w)"
    by (auto simp: get_connection_cases falsy_def)
next
  assume "falsy c \<and> \<not> in_pools db c"
  then show "get_connection be db w c = (Inl (ValueError ''Connection ID is required''), db, w)"
    by (simp add: get_connection_cases)
next
  assume m: "map_of (pools db) cid = Some p"
  then have "in_pools db (Some cid)" by (auto simp: in_pools_map_of)
  with m show "get_connection be db w (Some cid) = (Inr (Connection p), db, w)"
    by (simp add: get_connection_cases pool_acquire_def)
qed

theorem unknown_identifier_is_rejected_witness:
  "''b'' \<noteq> [] \<and> \<not> in_pools Database_init (Some ''b'')
   \<and> connection_map Database_init = JObject [] \<and> ''b'' \<notin> set (map fst ([] :: (string \<times> json) list))
   \<and> \<not> in_pools (Database_init\<lparr>connection_map := JArray [JString ''a'']\<rparr>) (Some ''b'')
   \<and> connection_map (Database_init\<lparr>connection_map := JArray [JString ''a'']\<rparr>)
       = JArray [JString ''a'']
   \<and> JString ''b'' \<notin> set [JString ''a'']
   \<and> \<not> in_pools (Database_init\<lparr>connection_map := JInt 5\<rparr>) (Some ''b'')
   \<and> connection_map (Database_init\<lparr>connection_map := JInt 5\<rparr>) = JInt 5
   \<and> falsy None \<and> \<not> in_pools Database_init None
   \<and> map_of (pools (Database_init\<lparr>pools := [(''a'', fresh_pool world_init JNull)]\<rparr>)) ''a''
       = Some (fresh_pool world_init JNull)
   \<and> get_connection sample_backend Database_init world_init (Some ''b'')
       = (Inl (ValueError ''Unknown connection ID b''), Database_init, world_init)
   \<and> get_connection sample_backend (Database_init\<lparr>connection_map := JArray [JString ''a'']\<rparr>)
         world_init (Some ''b'')
       = (Inl (ValueError ''Unknown connection ID b''),
          Database_init\<lparr>connection_map := JArray [JString ''a'']\<rparr>, world_init)
   \<and> (\<exists>m. get_connection sample_backend (Database_init\<lparr>connection_map := JInt 5\<rparr>)
              world_init (Some ''b'')
            = (Inl (TypeError m), Database_init\<lparr>connection_map := JInt 5\<rparr>, world_init))
   \<and> get_connection sample_backend Database_init world_init None
       = (Inl (ValueError ''Connection ID is required''), Database_init, world_init)
   \<and> get_connection sample_backend (Database_init\<lparr>pools := [(''a'', fresh_pool world_init JNull)]\<rparr>)
         world_init (Some ''a'')
       = (Inr (Connection (fresh_pool world_init JNull)),
          Database_init\<lparr>pools := [(''a'', fresh_pool world_init JNull)]\<rparr>, world_init)"
proof -
  have h: "''b'' \<noteq> []" "\<not> in_pools Database_init (Some ''b'')"
    "connection_map Database_init = JObject []"
    "''b'' \<notin> set (map fst ([] :: (string \<times> json) list))"
    "\<not> in_pools (Database_init\<lparr>connection_map := JArray [JString ''a'']\<rparr>) (Some ''b'')"
    "connection_map (Database_init\<lparr>connection_map := JArray [JString ''a'']\<rparr>)
       = JArray [JString ''a'']"
    "JString ''b'' \<notin> set [JString ''a'']"
    "\<not> in_pools (Database_init\<lparr>connection_map := JInt 5\<rparr>) (Some ''b'')"
    "connection_map (Database_init\<lparr>connection_map := JInt 5\<rparr>) = JInt 5"
    "falsy None" "\<not> in_pools Database_init None"
    "map_of (pools (Database_init\<lparr>pools := [(''a'', fresh_pool world_init JNull)]\<rparr>)) ''a''
       = Some (fresh_pool world_init JNull)"
    by (simp_all add: in_pools_def Database_init_def falsy_def)
  show ?thesis
    using h
      unknown_identifier_is_rejected
        [where conn_id = "''b''" and db = Database_init and kvs = "[]" and be = sample_backend
           and w = world_init and c = None]
      unknown_identifier_is_rejected
        [where conn_id = "''b''" and db = "Database_init\<lparr>connection_map := JArray [JString ''a'']\<rparr>"
           and xs = "[JString ''a'']" and be = sample_backend and w = world_init]
      unknown_identifier_is_rejected
        [where conn_id = "''b''" and db = "Database_init\<lparr>connection_map := JInt 5\<rparr>"
           and i = 5 and be = sample_backend and w = world_init]
      unknown_identifier_is_rejected
        [where db = "Database_init\<lparr>pools := [(''a'', fresh_pool world_init JNull)]\<rparr>"
           and cid = "''a''" and p = "fresh_pool world_init JNull"
           and be = sample_backend and w = world_init]
    by simp
qed

subsection \<open>Closing\<close>



subsection \<open>Calls that do not overlap leave no pool behind\<close>

























subsection \<open>Read-only connections\<close>





subsection \<open>Calls one after the other, and calls that overlap\<close>

lemma get_connections_served:
  "in_pools db c \<Longrightarrow> get_connections be (replicate n c) db w = (db, w)"
  by (induction n) (simp_all add: get_connection_cases)

lemma in_pools_update:
  "in_pools (db\<lparr>pools := AList.update cid p (pools db)\<rparr>) (Some cid)"
  by (simp add: in_pools_def AList.dom_update)

lemma task_steps_get_connection:
  "(case task_step be (Start c) db w of (t1, db1, w1) \<Rightarrow> task_step be t1 db1 w1)
     = (case get_connection be db w c of (r, db', w') \<Rightarrow> (task_of r, db', w'))"
proof (cases "in_pools db c")
  case True
  then show ?thesis
    by (simp add: task_step_def get_connection_def task_of_def split: sum.splits)
next
  case False
  show ?thesis
  proof (cases "initialize_begin db c")
    case (Inl e)
    with False show ?thesis
      by (simp add: task_step_def get_connection_def initialize_def task_of_def)
  next
    case (Inr x)
    show ?thesis
    proof (cases x)
      case None
      with Inr False show ?thesis
        by (simp add: task_step_def get_connection_def initialize_def task_of_def
                 split: sum.splits)
    next
      case (Some cs)
      from Inr Some have nf: "\<not> falsy c"
        by (auto simp: initialize_begin_def split: if_splits)
      then obtain cid where c: "c = Some cid" by (cases c) (auto simp: falsy_def)
      with Inr Some False show ?thesis
        by (simp add: task_step_def get_connection_def initialize_def task_of_def
                 split: prod.splits sum.splits)
    qed
  qed
qed

lemma get_connections_failed:
  "get_connection be db w c = (Inl e, db, w) \<Longrightarrow> get_connections be (replicate n c) db w = (db, w)"
  by (induction n) simp_all

text \<open>
  Claim C5 says that calls of \<^verbatim>\<open>get_connection\<close> for one identifier that overlap while
  no pool exists for it construct one pool, the later callers waiting on an
  initialization lock. The code has no such lock. Two calls for \<^verbatim>\<open>a\<close>: the first runs
  up to its \<^verbatim>\<open>await asyncpg.create_pool(...)\<close>, the second does the same while the
  first is suspended, then each is resumed. Two pools have been constructed; the map
  holds the second, and the first call holds a connection of a pool that is in no map.
\<close>

theorem overlapping_calls_build_two_pools:
  "run_schedule sample_backend [0, 1, 0, 1] [Start (Some ''a''), Start (Some ''a'')]
     \<lparr>pools = [], connection_map = JObject [(''a'', JString ''dsn'')], last_config_hash = None\<rparr>
     world_init
   = ([Holding (Connection
         \<lparr>pool_id = 0, dsn = JString ''dsn'', min_size = 2, max_size = 4, command_timeout = 60,
          server_settings = [(''default_transaction_read_only'', ''true'')]\<rparr>),
       Holding (Connection
         \<lparr>pool_id = 1, dsn = JString ''dsn'', min_size = 2, max_size = 4, command_timeout = 60,
          server_settings = [(''default_transaction_read_only'', ''true'')]\<rparr>)],
      \<lparr>pools = [(''a'',
         \<lparr>pool_id = 1, dsn = JString ''dsn'', min_size = 2, max_size = 4, command_timeout = 60,
          server_settings = [(''default_transaction_read_only'', ''true'')]\<rparr>)],
       connection_map = JObject [(''a'', JString ''dsn'')], last_config_hash = None\<rparr>,
      \<lparr>next_pool_id = 2, closed_pools = [], statements = []\<rparr>)"
  by code_simp

text \<open>
  Claim C5, amended. Calls of \<^verbatim>\<open>get_connection\<close> for one identifier that do not overlap,
  each returning before the next one starts, made when no pool exists for the
  identifier, construct at most one pool. When the identifier is not empty, resolves to
  a credential and the server accepts the connection, they construct exactly one: the
  first call constructs and stores it, and every later call, like every call that starts
  once the pool is stored, is served from it and constructs nothing. When the identifier
  is \<^verbatim>\<open>None\<close> or empty, does not resolve, or the server refuses the connection, every
  call fails and none constructs a pool.
\<close>

theorem calls_in_sequence_build_one_pool:
  "(\<not> in_pools db c \<longrightarrow>
      next_pool_id (snd (get_connections be (replicate n c) db w)) \<le> Suc (next_pool_id w))
   \<and> (cid \<noteq> [] \<and> \<not> in_pools db (Some cid) \<and> get_connection_string db cid = Inr cs \<and>
        connect_error be cs = None \<longrightarrow>
        get_connections be (replicate (Suc n) (Some cid)) db w
           = (db\<lparr>pools := AList.update cid (fresh_pool w cs) (pools db)\<rparr>,
              w\<lparr>next_pool_id := Suc (next_pool_id w)\<rparr>)
        \<and> (case task_step be (Start (Some cid)) db w of
              (t1, db1, w1) \<Rightarrow> task_step be t1 db1 w1)
            = (Holding (Connection (fresh_pool w cs)),
               db\<lparr>pools := AList.update cid (fresh_pool w cs) (pools db)\<rparr>,
               w\<lparr>next_pool_id := Suc (next_pool_id w)\<rparr>)
        \<and> task_step be (Start (Some cid))
              (db\<lparr>pools := AList.update cid (fresh_pool w cs) (pools db)\<rparr>)
              (w\<lparr>next_pool_id := Suc (next_pool_id w)\<rparr>)
            = (Holding (Connection (fresh_pool w cs)),
               db\<lparr>pools := AList.update cid (fresh_pool w cs) (pools db)\<rparr>,
               w\<lparr>next_pool_id := Suc (next_pool_id w)\<rparr>))
   \<and> (\<not> in_pools db c \<and>
        (falsy c \<or> (\<exists>e. get_connection_string db (the c) = Inl e) \<or>
         (\<exists>cs' m. get_connection_string db (the c) = Inr cs' \<and> connect_error be cs' = Some m)) \<longrightarrow>
        get_connections be (replicate n c) db w = (db, w))"
proof (intro conjI impI)
  assume h: "cid \<noteq> [] \<and> \<not> in_pools db (Some cid) \<and> get_connection_string db cid = Inr cs \<and>
        connect_error be cs = None"
  let ?db' = "db\<lparr>pools := AList.update cid (fresh_pool w cs) (pools db)\<rparr>"
  let ?w' = "w\<lparr>next_pool_id := Suc (next_pool_id w)\<rparr>"
  have first: "get_connection be db w (Some cid) = (Inr (Connection (fresh_pool w cs)), ?db', ?w')"
    using h by (simp add: get_connection_cases falsy_def)
  have "get_connections be (replicate n (Some cid)) ?db' ?w' = (?db', ?w')"
    by (rule get_connections_served) (rule in_pools_update)
  with first show "get_connections be (replicate (Suc n) (Some cid)) db w = (?db', ?w')"
    by simp
  show "(case task_step be (Start (Some cid)) db w of (t1, db1, w1) \<Rightarrow> task_step be t1 db1 w1)
        = (Holding (Connection (fresh_pool w cs)), ?db', ?w')"
    by (simp add: task_steps_get_connection first task_of_def)
  show "task_step be (Start (Some cid)) ?db' ?w'
        = (Holding (Connection (fresh_pool w cs)), ?db', ?w')"
    using in_pools_update[where db = db and cid = cid and p = "fresh_pool w cs"]
          pool_acquire_update[where db = db and cid = cid and p = "fresh_pool w cs"]
    by (simp add: task_step_def task_of_def)
next
  assume h: "\<not> in_pools db c \<and>
        (falsy c \<or> (\<exists>e. get_connection_string db (the c) = Inl e) \<or>
         (\<exists>cs' m. get_connection_string db (the c) = Inr cs' \<and> connect_error be cs' = Some m))"
  then have "\<exists>e. get_connection be db w c = (Inl e, db, w)"
    by (auto simp: get_connection_cases)
  then show "get_connections be (replicate n c) db w = (db, w)"
    by (auto intro: get_connections_failed)
next
  assume np: "\<not> in_pools db c"
  show "next_pool_id (snd (get_connections be (replicate n c) db w)) \<le> Suc (next_pool_id w)"
  proof (cases n)
    case 0
    then show ?thesis by simp
  next
    case (Suc k)
    obtain r db' w' where g: "get_connection be db w c = (r, db', w')"
      by (cases "get_connection be db w c") auto
    show ?thesis
    proof (cases r)
      case (Inl e)
      with g np have "db' = db \<and> w' = w"
        by (auto simp: get_connection_cases split: if_splits sum.splits option.splits)
      with g Inl have "get_connections be (replicate n c) db w = (db, w)"
        by (auto intro: get_connections_failed)
      then show ?thesis by simp
    next
      case (Inr conn)
      with g np have ip: "in_pools db' c" and nx: "next_pool_id w' = Suc (next_pool_id w)"
        by (auto simp: get_connection_cases in_pools_def AList.dom_update falsy_def
                 split: if_splits sum.splits option.splits)
      from ip have "get_connections be (replicate k c) db' w' = (db', w')"
        by (rule get_connections_served)
      with g Suc nx show ?thesis by simp
    qed
  qed
qed

theorem calls_in_sequence_build_one_pool_witness:
  "''a'' \<noteq> []
   \<and> \<not> in_pools (Database_init\<lparr>connection_map := JObject [(''a'', JString ''dsn'')]\<rparr>) (Some ''a'')
   \<and> get_connection_string (Database_init\<lparr>connection_map := JObject [(''a'', JString ''dsn'')]\<rparr>) ''a''
       = Inr (JString ''dsn'')
   \<and> connect_error sample_backend (JString ''dsn'') = None
   \<and> get_connections sample_backend (replicate (Suc 2) (Some ''a''))
        (Database_init\<lparr>connection_map := JObject [(''a'', JString ''dsn'')]\<rparr>) world_init
       = (Database_init\<lparr>connection_map := JObject [(''a'', JString ''dsn'')],
                        pools := [(''a'', fresh_pool world_init (JString ''dsn''))]\<rparr>,
          world_init\<lparr>next_pool_id := 1\<rparr>)
   \<and> next_pool_id (snd (get_connections sample_backend (replicate 3 (Some ''a''))
        (Database_init\<lparr>connection_map := JObject [(''a'', JString ''dsn'')]\<rparr>) world_init))
       \<le> Suc (next_pool_id world_init)
   \<and> \<not> in_pools Database_init (Some ''a'')
   \<and> get_connection_string Database_init (the (Some ''a''))
       = Inl (ValueError ''Unknown connection ID a'')
   \<and> get_connections sample_backend (replicate 3 (Some ''a'')) Database_init world_init
       = (Database_init, world_init)"
proof -
  let ?db = "Database_init\<lparr>connection_map := JObject [(''a'', JString ''dsn'')]\<rparr>"
  have h: "''a'' \<noteq> []" "\<not> in_pools ?db (Some ''a'')"
    "get_connection_string ?db ''a'' = Inr (JString ''dsn'')"
    "connect_error sample_backend (JString ''dsn'') = None"
    "\<not> in_pools Database_init (Some ''a'')"
    "get_connection_string Database_init (the (Some ''a''))
       = Inl (ValueError ''Unknown connection ID a'')"
    by (simp_all add: in_pools_def Database_init_def get_connection_string_def py_contains_def
                      py_getitem_def sample_backend_def)
  show ?thesis
    using h
      calls_in_sequence_build_one_pool
        [where db = ?db and cid = "''a''" and cs = "JString ''dsn''" and be = sample_backend
           and w = world_init and n = 2 and c = "Some ''a''"]
      calls_in_sequence_build_one_pool
        [where db = ?db and be = sample_backend and w = world_init and n = 3 and c = "Some ''a''"]
      calls_in_sequence_build_one_pool
        [where db = Database_init and be = sample_backend and w = world_init and n = 3
           and c = "Some ''a''"]
    by (simp add: Database_init_def world_init_def)
qed

end
